theory Spec2Isabelle
  imports Main "HOL-Library.Sublist"
begin

section \<open>Values and exceptions\<close>

text \<open>
  The script \<^verbatim>\<open>scripts/Qual Coding Example.py\<close> reads a spreadsheet with pandas, sends the
  \<^verbatim>\<open>text\<close> cell of every row to a chat-completion service and stores one label per row.

  A spreadsheet cell, as pandas hands it to the script, is a Python object: a \<^verbatim>\<open>str\<close>, a
  number, a boolean, or the float NaN that stands for an empty cell. Numbers are modelled by
  integers (the script never computes with them; only their truth value and the absence of a
  \<^verbatim>\<open>strip\<close> attribute matter). A Python \<^verbatim>\<open>str\<close> is modelled by a HOL \<open>string\<close>, one
  \<open>char\<close> per code point below 256.
\<close>

datatype cell = Str string | Num int | Bool bool | NaN

text \<open>The exceptions (all subclasses of Python's \<^verbatim>\<open>Exception\<close>) that can occur in a run.\<close>

datatype exn =
    AttributeError | IndexError | KeyError
  | FileNotFoundError | PermissionError | ValueError
  | OpenAIError | APIConnectionError | AuthenticationError | RateLimitError | APIStatusError

text \<open>Python's truth value of an object (\<^verbatim>\<open>not x\<close> is its negation). NaN is a non-zero float.\<close>

fun truthy :: "cell \<Rightarrow> bool" where
  "truthy (Str s) = (s \<noteq> [])"
| "truthy (Num n) = (n \<noteq> 0)"
| "truthy (Bool b) = b"
| "truthy NaN = True"

text \<open>
  \<^verbatim>\<open>str.isspace\<close> on one character, for the code points below 256: TAB, LF, VT, FF, CR,
  the separators FS, GS, RS, US, the space, NEL and the no-break space.
\<close>

definition isspace :: "char \<Rightarrow> bool" where
  "isspace c = (of_char c \<in> set [9, 10, 11, 12, 13, 28, 29, 30, 31, 32, 133, 160 :: nat])"

text \<open>\<^verbatim>\<open>s.strip()\<close>: drop the leading and the trailing whitespace.\<close>

definition strip :: "string \<Rightarrow> string" where
  "strip s = rev (dropWhile isspace (rev (dropWhile isspace s)))"

text \<open>\<^verbatim>\<open>sep.join(xs)\<close>\<close>

fun join :: "string \<Rightarrow> string list \<Rightarrow> string" where
  "join sep [] = []"
| "join sep [x] = x"
| "join sep (x # y # ys) = x @ sep @ join sep (y # ys)"

section \<open>The remote completion service\<close>

text \<open>
  The OpenAI client is a handle that holds the key it was built with. A request carries the
  model name, the messages (role and content) and the sampling temperature. The service
  either raises, or answers with a list of choices, each holding the message content, which
  the client library types as an optional string.

  Sampling at temperature 1 is not a function of the request, so the service is a parameter
  that also sees how many requests were made before. The requests made so far are kept in a
  log, which is the only state of the remote side that the script can influence.
\<close>

record client =
  api_key :: "string option"

record request =
  model :: string
  messages :: "(string \<times> string) list"
  temperature :: int

datatype api_outcome = Raises exn | Response "string option list"

type_synonym service = "client \<Rightarrow> nat \<Rightarrow> request \<Rightarrow> api_outcome"

section \<open>SimpleFeedbackAnalyzer\<close>

record analyzer =
  client :: client
  teaching_skills :: "string list"

definition default_skills :: "string list" where
  "default_skills =
    [''Classroom Management'', ''Lesson Planning'', ''Differentiation'',
     ''Assessment and Feedback'', ''Student Engagement'', ''Student Comprehension'',
     ''Communication'']"

text \<open>
  \<^verbatim>\<open>create_prompt\<close>: the f-string of the source, cut into its fixed pieces. The second
  line of the template consists of eight spaces; \<open>CHR 0x0A\<close> is the line feed, \<open>CHR 0x22\<close>
  the double quote and \<open>CHR 0x27\<close> the apostrophe.
\<close>

definition prompt_head :: string where
  "prompt_head =
     ''Analyze this feedback given to a pre-service teacher and identify the main area that needs improvement.'' @
     [CHR 0x0A] @ ''        '' @ [CHR 0x0A] @
     ''Feedback text:'' @ [CHR 0x0A]"

definition prompt_options :: string where
  "prompt_options = [CHR 0x0A, CHR 0x0A] @ ''Respond with ONLY ONE of these options: ''"

definition prompt_sentinels :: string where
  "prompt_sentinels =
     '', '' @ [CHR 0x22] @ ''other'' @ [CHR 0x22] @ '', '' @ [CHR 0x22] @ ''none'' @ [CHR 0x22] @
     '', or '' @ [CHR 0x22] @ ''multiple'' @ [CHR 0x22] @ ''.''"

definition rule_multiple :: string where
  "rule_multiple =
     ''- Choose '' @ [CHR 0x22] @ ''multiple'' @ [CHR 0x22] @
     '' if there are several equally emphasized areas for improvement''"

definition rule_none :: string where
  "rule_none =
     ''- Choose '' @ [CHR 0x22] @ ''none'' @ [CHR 0x22] @
     '' if no specific area for improvement is mentioned''"

definition rule_other :: string where
  "rule_other =
     ''- Choose '' @ [CHR 0x22] @ ''other'' @ [CHR 0x22] @
     '' if the area for improvement doesn'' @ [CHR 0x27] @ ''t match any of the listed skills''"

definition rule_otherwise :: string where
  "rule_otherwise =
     ''- Otherwise, choose the most prominent teaching skill that needs improvement''"

definition prompt_rules :: string where
  "prompt_rules =
     [CHR 0x0A, CHR 0x0A] @ ''Rules:'' @ [CHR 0x0A] @
     rule_multiple @ [CHR 0x0A] @ rule_none @ [CHR 0x0A] @ rule_other @ [CHR 0x0A] @
     rule_otherwise"

definition create_prompt :: "analyzer \<Rightarrow> string \<Rightarrow> string" where
  "create_prompt self feedback_text =
     (let skills_list = join '', '' (teaching_skills self)
      in prompt_head @ feedback_text @ prompt_options @ skills_list @ prompt_sentinels @
         prompt_rules)"

definition system_content :: string where
  "system_content =
     ''You are an expert at analyzing teacher feedback. Respond with only the area that needs improvement.''"

text \<open>The request that \<^verbatim>\<open>get_area_for_improvement\<close> builds for a feedback string.\<close>

definition completion_request :: "analyzer \<Rightarrow> string \<Rightarrow> request" where
  "completion_request self feedback_text =
     \<lparr>model = ''gpt-4o-mini'',
      messages = [(''system'', system_content), (''user'', create_prompt self feedback_text)],
      temperature = 1\<rparr>"

text \<open>\<^verbatim>\<open>self.teaching_skills + ["other", "none", "multiple"]\<close>\<close>

definition allowed_labels :: "analyzer \<Rightarrow> string list" where
  "allowed_labels self = teaching_skills self @ [''other'', ''none'', ''multiple'']"

text \<open>
  The body of the \<^verbatim>\<open>try\<close> block. The request is sent (and logged) first. An exception of
  the call, \<^verbatim>\<open>choices[0]\<close> on an empty list (IndexError) and \<^verbatim>\<open>.strip()\<close> on a missing
  content (AttributeError) all end in the \<^verbatim>\<open>except Exception\<close> branch, which returns
  \<^verbatim>\<open>"none"\<close>.
\<close>

definition try_completion ::
  "analyzer \<Rightarrow> service \<Rightarrow> string \<Rightarrow> request list \<Rightarrow> string \<times> request list" where
  "try_completion self svc feedback_text calls =
     (let req = completion_request self feedback_text;
          calls' = calls @ [req]
      in case svc (client self) (length calls) req of
           Raises e \<Rightarrow> (''none'', calls')
         | Response choices \<Rightarrow>
             (case choices of
                [] \<Rightarrow> (''none'', calls')
              | None # _ \<Rightarrow> (''none'', calls')
              | Some content # _ \<Rightarrow>
                  (let area = strip content
                   in (if area \<notin> set (allowed_labels self) then ''other'' else area, calls'))))"

text \<open>
  \<^verbatim>\<open>get_area_for_improvement\<close>. The guard
  \<^verbatim>\<open>not feedback_text or len(feedback_text.strip()) < 0\<close> stands before the \<^verbatim>\<open>try\<close>: a
  falsy object returns \<^verbatim>\<open>"none"\<close> at once; for a truthy one \<^verbatim>\<open>feedback_text.strip\<close> is
  evaluated, which raises AttributeError on anything but a \<^verbatim>\<open>str\<close>. The result is the
  returned label or the exception that escapes, together with the log of requests.
\<close>

fun get_area_for_improvement ::
  "analyzer \<Rightarrow> service \<Rightarrow> cell \<Rightarrow> request list \<Rightarrow> (exn + string) \<times> request list" where
  "get_area_for_improvement self svc (Str s) calls =
     (if \<not> truthy (Str s) \<or> int (length (strip s)) < 0 then (Inr ''none'', calls)
      else (case try_completion self svc s calls of (area, calls') \<Rightarrow> (Inr area, calls')))"
| "get_area_for_improvement self svc v calls =
     (if \<not> truthy v then (Inr ''none'', calls) else (Inl AttributeError, calls))"

section \<open>The data frame\<close>

text \<open>
  A pandas \<^verbatim>\<open>DataFrame\<close> as \<^verbatim>\<open>read_excel\<close> builds it: a range index \<open>0, \<dots>, nrows - 1\<close>
  and an ordered list of named columns, each holding one cell per row. \<^verbatim>\<open>read_excel\<close>
  renames duplicated headers, so the column names of a frame it returns are distinct, and
  every column has one cell per row: that is \<open>wf_dataframe\<close>.
\<close>

record dataframe =
  nrows :: nat
  cols :: "(string \<times> cell list) list"

definition wf_dataframe :: "dataframe \<Rightarrow> bool" where
  "wf_dataframe df =
     (distinct (map fst (cols df)) \<and> list_all (\<lambda>kv. length (snd kv) = nrows df) (cols df))"

text \<open>\<^verbatim>\<open>df.columns\<close> and \<^verbatim>\<open>df[c]\<close>\<close>

definition column_names :: "dataframe \<Rightarrow> string list" where
  "column_names df = map fst (cols df)"

definition column :: "dataframe \<Rightarrow> string \<Rightarrow> cell list option" where
  "column df c = map_of (cols df) c"

text \<open>
  \<^verbatim>\<open>df[c] = v\<close> with a scalar \<open>v\<close>: an existing column \<open>c\<close> is overwritten in place, in
  every row; otherwise a new column is appended after the last one.
\<close>

definition set_column :: "dataframe \<Rightarrow> string \<Rightarrow> cell \<Rightarrow> dataframe" where
  "set_column df c v =
     (if c \<in> set (column_names df)
      then df\<lparr>cols := map (\<lambda>kv. if fst kv = c then (c, replicate (nrows df) v) else kv) (cols df)\<rparr>
      else df\<lparr>cols := cols df @ [(c, replicate (nrows df) v)]\<rparr>)"

text \<open>
  \<^verbatim>\<open>df.at[i, c] = v\<close> for a row label \<open>i\<close> of the index and an existing column \<open>c\<close>, the only
  way the script uses it (the label comes from \<^verbatim>\<open>iterrows\<close> of the same frame, the column
  was set just before the loop).
\<close>

definition set_at :: "dataframe \<Rightarrow> nat \<Rightarrow> string \<Rightarrow> cell \<Rightarrow> dataframe" where
  "set_at df i c v =
     df\<lparr>cols := map (\<lambda>kv. if fst kv = c then (c, (snd kv)[i := v]) else kv) (cols df)\<rparr>"

text \<open>
  \<^verbatim>\<open>df.iterrows()\<close> yields, for every index label in order, the label and the row as a
  Series, here a map from column names to cells. \<^verbatim>\<open>row[c]\<close> on a name that is not a column
  raises KeyError. The rows are built from the frame as it is when the loop starts.
\<close>

definition row_at :: "dataframe \<Rightarrow> nat \<Rightarrow> (string \<rightharpoonup> cell)" where
  "row_at df i =
     (\<lambda>c. case map_of (cols df) c of
             None \<Rightarrow> None
           | Some vs \<Rightarrow> if i < length vs then Some (vs ! i) else None)"

definition iterrows :: "dataframe \<Rightarrow> (nat \<times> (string \<rightharpoonup> cell)) list" where
  "iterrows df = map (\<lambda>i. (i, row_at df i)) [0..<nrows df]"

section \<open>The pipeline\<close>

text \<open>
  What the script cannot see into is a parameter of the run: what \<^verbatim>\<open>pd.read_excel\<close>
  returns for a path, the value of \<^verbatim>\<open>OPENAI_API_KEY\<close> in the environment after
  \<^verbatim>\<open>load_dotenv(env_path)\<close>, whether the constructor of the OpenAI client accepts a key,
  the completion service, and whether \<^verbatim>\<open>to_excel\<close> can write to a path.
\<close>

record world =
  read_excel :: "string \<Rightarrow> exn + dataframe"
  getenv_key :: "string \<Rightarrow> string option"
  OpenAI :: "string option \<Rightarrow> exn + client"
  completions_create :: service
  to_excel :: "string \<Rightarrow> dataframe \<Rightarrow> exn option"

text \<open>\<^verbatim>\<open>SimpleFeedbackAnalyzer.__init__\<close>\<close>

definition SimpleFeedbackAnalyzer :: "world \<Rightarrow> string \<Rightarrow> exn + analyzer" where
  "SimpleFeedbackAnalyzer w env_path =
     (case OpenAI w (getenv_key w env_path) of
        Inl e \<Rightarrow> Inl e
      | Inr c \<Rightarrow> Inr \<lparr>client = c, teaching_skills = default_skills\<rparr>)"

text \<open>
  The \<^verbatim>\<open>for index, row in df.iterrows()\<close> loop. \<^verbatim>\<open>row['text']\<close> and the call of
  \<^verbatim>\<open>get_area_for_improvement\<close> are not inside a \<^verbatim>\<open>try\<close> of their own: an exception
  leaves the loop. The progress message every ten rows changes nothing and is left out.
\<close>

fun for_rows ::
  "analyzer \<Rightarrow> service \<Rightarrow> (nat \<times> (string \<rightharpoonup> cell)) list \<Rightarrow> dataframe \<Rightarrow> request list
     \<Rightarrow> exn option \<times> dataframe \<times> request list" where
  "for_rows analyzer svc [] df calls = (None, df, calls)"
| "for_rows analyzer svc ((index, row) # rest) df calls =
     (case row ''text'' of
        None \<Rightarrow> (Some KeyError, df, calls)
      | Some feedback_text \<Rightarrow>
          (case get_area_for_improvement analyzer svc feedback_text calls of
             (Inl e, calls') \<Rightarrow> (Some e, df, calls')
           | (Inr result, calls') \<Rightarrow>
               for_rows analyzer svc rest
                 (set_at df index ''area_for_improvement'' (Str result)) calls'))"

text \<open>
  \<^verbatim>\<open>process_excel_file\<close>: everything runs inside one \<^verbatim>\<open>try\<close> whose handler prints the
  exception and returns, so a run ends either with the frame written to \<open>output_file\<close> or
  aborted with nothing written. The second component is the log of completion requests.
\<close>

datatype outcome = Written string dataframe | Aborted exn

definition process_excel_file ::
  "world \<Rightarrow> string \<Rightarrow> string \<Rightarrow> string \<Rightarrow> outcome \<times> request list" where
  "process_excel_file w input_file output_file env_path =
     (case read_excel w input_file of
        Inl e \<Rightarrow> (Aborted e, [])
      | Inr df \<Rightarrow>
          (case SimpleFeedbackAnalyzer w env_path of
             Inl e \<Rightarrow> (Aborted e, [])
           | Inr analyzer \<Rightarrow>
               (let df1 = set_column df ''area_for_improvement'' (Str ''none'')
                in case for_rows analyzer (completions_create w) (iterrows df1) df1 [] of
                     (Some e, df2, calls) \<Rightarrow> (Aborted e, calls)
                   | (None, df2, calls) \<Rightarrow>
                       (case to_excel w output_file df2 of
                          Some e \<Rightarrow> (Aborted e, calls)
                        | None \<Rightarrow> (Written output_file df2, calls)))))"

section \<open>Notions used to state the properties\<close>

text \<open>
  The three ways a text cell can go through the guard of \<^verbatim>\<open>get_area_for_improvement\<close>:
  a non-empty \<^verbatim>\<open>str\<close> reaches the remote call, a truthy object that is no \<^verbatim>\<open>str\<close> raises
  before the \<^verbatim>\<open>try\<close>, anything falsy returns at once.
\<close>

fun is_str :: "cell \<Rightarrow> bool" where
  "is_str (Str s) = True"
| "is_str v = False"

definition needs_call :: "cell \<Rightarrow> bool" where
  "needs_call v = (is_str v \<and> truthy v)"

definition raises_outside_try :: "cell \<Rightarrow> bool" where
  "raises_outside_try v = (truthy v \<and> \<not> is_str v)"

text \<open>
  An answer of the service on which the \<^verbatim>\<open>try\<close> block raises: the call itself raises, or
  the response has no choice, or its first choice has no content.
\<close>

fun raises_in_try :: "api_outcome \<Rightarrow> bool" where
  "raises_in_try (Raises e) = True"
| "raises_in_try (Response []) = True"
| "raises_in_try (Response (None # cs)) = True"
| "raises_in_try (Response (Some content # cs)) = False"

text \<open>A cell that holds one of the labels an analyzer allows.\<close>

fun is_label :: "string list \<Rightarrow> cell \<Rightarrow> bool" where
  "is_label labels (Str l) = (l \<in> set labels)"
| "is_label labels v = False"

text \<open>
  The output frame \<open>df'\<close> is the input frame \<open>df\<close> with exactly one more column, named \<open>c\<close>,
  after the columns of \<open>df\<close>: same rows, the old columns with their cells, in their order.
\<close>

definition adds_one_column :: "dataframe \<Rightarrow> string \<Rightarrow> dataframe \<Rightarrow> bool" where
  "adds_one_column df c df' =
     (nrows df' = nrows df \<and> length (cols df') = Suc (length (cols df)) \<and>
      take (length (cols df)) (cols df') = cols df \<and>
      fst (last (cols df')) = c \<and> length (snd (last (cols df'))) = nrows df)"

text \<open>
  The labels the rows of a frame are to get: row by row, what
  \<^verbatim>\<open>get_area_for_improvement\<close> returns for the text of the row, the log of requests
  handed on from each row to the next. The list ends before the first row that raises.
\<close>

fun row_labels :: "analyzer \<Rightarrow> service \<Rightarrow> cell list \<Rightarrow> request list \<Rightarrow> cell list" where
  "row_labels self svc [] calls = []"
| "row_labels self svc (feedback_text # rest) calls =
     (case get_area_for_improvement self svc feedback_text calls of
        (Inl e, calls') \<Rightarrow> []
      | (Inr result, calls') \<Rightarrow> Str result # row_labels self svc rest calls')"

subsection \<open>Sample runs\<close>

text \<open>
  The three-row scenario: the service answers the first request with a skill and the
  second with \<^verbatim>\<open>none\<close>; the second row has an empty text.
\<close>

definition sample_frame :: dataframe where
  "sample_frame =
     \<lparr>nrows = 3,
      cols = [(''id'', [Num 1, Num 2, Num 3]),
              (''text'', [Str ''Teacher never circulated during group work'', Str [],
                          Str ''Great job, no concerns''])]\<rparr>"

definition sample_service :: service where
  "sample_service c n req =
     (if n = 0 then Response [Some ''Classroom Management''] else Response [Some ''none''])"

definition sample_world :: world where
  "sample_world =
     \<lparr>read_excel = (\<lambda>p. Inr sample_frame),
      getenv_key = (\<lambda>p. Some ''sk-sample''),
      OpenAI = (\<lambda>k. Inr \<lparr>api_key = k\<rparr>),
      completions_create = sample_service,
      to_excel = (\<lambda>p df. None)\<rparr>"

definition sample_analyzer :: analyzer where
  "sample_analyzer = \<lparr>client = \<lparr>api_key = Some ''sk-sample''\<rparr>, teaching_skills = default_skills\<rparr>"

text \<open>The same run against a service that is down: every request raises.\<close>

definition failing_world :: world where
  "failing_world = sample_world\<lparr>completions_create := (\<lambda>c n req. Raises APIConnectionError)\<rparr>"

text \<open>An input that already has a column \<^verbatim>\<open>area_for_improvement\<close>.\<close>

definition coded_frame :: dataframe where
  "coded_frame =
     \<lparr>nrows = 2,
      cols = [(''area_for_improvement'', [Str ''old'', Str ''old'']),
              (''text'', [Str ''Plan the lesson'', Str ''Speak up'']),
              (''id'', [Num 1, Num 2])]\<rparr>"

definition coded_world :: world where
  "coded_world = sample_world\<lparr>read_excel := (\<lambda>p. Inr coded_frame)\<rparr>"

text \<open>An input whose second row has an empty text cell, which pandas reads as NaN.\<close>

definition gap_frame :: dataframe where
  "gap_frame =
     \<lparr>nrows = 3,
      cols = [(''text'', [Str ''Plan the lesson'', NaN, Str ''Speak up''])]\<rparr>"

definition gap_world :: world where
  "gap_world = sample_world\<lparr>read_excel := (\<lambda>p. Inr gap_frame)\<rparr>"

text \<open>A service that echoes a fixed answer to every request.\<close>

definition echo_service :: "string \<Rightarrow> service" where
  "echo_service answer c n req = Response [Some answer]"

section \<open>Properties of the classifier\<close>

lemma length_strip_not_negative: "\<not> int (length (strip s)) < 0"
  by simp

lemma try_completion_allowed:
  "try_completion a svc s calls = (l, calls') \<Longrightarrow> l \<in> set (allowed_labels a)"
  by (auto simp: try_completion_def Let_def allowed_labels_def split: api_outcome.splits list.splits option.splits if_splits)

lemma try_completion_calls:
  "try_completion a svc s calls = (l, calls') \<Longrightarrow> calls' = calls @ [completion_request a s]"
  by (auto simp: try_completion_def Let_def split: api_outcome.splits list.splits option.splits)

lemma get_area_allowed:
  "get_area_for_improvement a svc v calls = (Inr l, calls') \<Longrightarrow> l \<in> set (allowed_labels a)"
  by (cases v) (auto simp: allowed_labels_def dest: try_completion_allowed split: if_splits prod.splits)

lemma get_area_cases:
  "get_area_for_improvement a svc v calls =
     (if raises_outside_try v then (Inl AttributeError, calls)
      else if needs_call v then (case v of Str s \<Rightarrow> (Inr (fst (try_completion a svc s calls)), calls @ [completion_request a s]) | _ \<Rightarrow> undefined)
      else (Inr ''none'', calls))"
  by (cases v) (auto simp: raises_outside_try_def needs_call_def split: prod.splits dest: try_completion_calls)

section \<open>Properties of the data frame operations\<close>

lemma map_of_map_key:
  "map_of (map (\<lambda>kv. if fst kv = c then (c, f (snd kv)) else kv) xs) k =
     (if k = c then map_option f (map_of xs c) else map_of xs k)"
  by (induction xs) auto

lemma column_set_at:
  "column (set_at df i c v) k =
     (if k = c then map_option (\<lambda>vs. vs[i := v]) (column df c) else column df k)"
  by (simp add: column_def set_at_def map_of_map_key [where f = "\<lambda>vs. vs[i := v]"])

lemma nrows_set_at [simp]: "nrows (set_at df i c v) = nrows df"
  by (simp add: set_at_def)

lemma column_names_set_at [simp]: "column_names (set_at df i c v) = column_names df"
  by (simp add: set_at_def column_names_def comp_def)

lemma column_set_column:
  "column (set_column df c v) k =
     (if k = c then Some (replicate (nrows df) v) else column df k)"
proof (cases "c \<in> set (column_names df)")
  case True
  then obtain vs where "map_of (cols df) c = Some vs"
    by (auto simp: column_names_def dest: weak_map_of_SomeI)
  with True show ?thesis
    by (simp add: column_def set_column_def map_of_map_key [where f = "\<lambda>vs. replicate (nrows df) v"])
next
  case False
  then have "map_of (cols df) c = None"
    by (simp add: column_names_def map_of_eq_None_iff)
  with False show ?thesis
    by (auto simp: column_def set_column_def map_add_def split: option.splits)
qed

lemma nrows_set_column [simp]: "nrows (set_column df c v) = nrows df"
  by (simp add: set_column_def)

lemma column_names_set_column:
  "column_names (set_column df c v) =
     (if c \<in> set (column_names df) then column_names df else column_names df @ [c])"
  by (simp add: set_column_def column_names_def comp_def)


section \<open>Properties of the row loop\<close>

lemma for_rows_append:
  "for_rows a svc (xs @ ys) df calls =
     (case for_rows a svc xs df calls of
        (None, df', calls') \<Rightarrow> for_rows a svc ys df' calls'
      | (Some e, df', calls') \<Rightarrow> (Some e, df', calls'))"
  by (induction xs arbitrary: df calls) (auto split: option.splits prod.splits sum.splits)

lemma cols_set_at_other:
  "c \<notin> fst ` set xs \<Longrightarrow>
     map (\<lambda>kv. if fst kv = c then (c, f (snd kv)) else kv) (xs @ [(c, vs)]) = xs @ [(c, f vs)]"
  by (induction xs) auto

lemma for_rows_nrows:
  "for_rows a svc rs df calls = (x, df', calls') \<Longrightarrow> nrows df' = nrows df"
  by (induction rs arbitrary: df calls) (auto split: option.splits prod.splits sum.splits)

lemma for_rows_column_names:
  "for_rows a svc rs df calls = (x, df', calls') \<Longrightarrow> column_names df' = column_names df"
  by (induction rs arbitrary: df calls) (auto split: option.splits prod.splits sum.splits)

lemma for_rows_appended_column:
  "for_rows a svc rs df calls = (x, df', calls') \<Longrightarrow>
   cols df = xs @ [(''area_for_improvement'', vs)] \<Longrightarrow> ''area_for_improvement'' \<notin> fst ` set xs \<Longrightarrow>
   \<exists>vs'. cols df' = xs @ [(''area_for_improvement'', vs')] \<and> length vs' = length vs"
proof (induction rs arbitrary: df calls vs)
  case Nil
  then show ?case by simp
next
  case (Cons ir rs)
  obtain i r where ir: "ir = (i, r)" by (cases ir)
  show ?case
  proof (cases "r ''text''")
    case None
    with Cons.prems ir show ?thesis by simp
  next
    case (Some t)
    show ?thesis
    proof (cases "get_area_for_improvement a svc t calls")
      case (Pair res calls1)
      show ?thesis
      proof (cases res)
        case (Inl e)
        with Cons.prems ir Some Pair show ?thesis by simp
      next
        case (Inr l)
        let ?df1 = "set_at df i ''area_for_improvement'' (Str l)"
        have run: "for_rows a svc rs ?df1 calls1 = (x, df', calls')"
          using Cons.prems(1) ir Some Pair Inr by simp
        have c1: "cols ?df1 = xs @ [(''area_for_improvement'', vs[i := Str l])]"
          using Cons.prems(2) cols_set_at_other [OF Cons.prems(3), where f = "\<lambda>vs. vs[i := Str l]" and vs = vs]
          by (simp add: set_at_def)
        from Cons.IH [OF run c1 Cons.prems(3)] show ?thesis by simp
      qed
    qed
  qed
qed

lemma for_rows_labels:
  "for_rows a svc rs df calls = (x, df', calls') \<Longrightarrow>
   column df ''area_for_improvement'' = Some vs \<Longrightarrow>
   set vs \<subseteq> Str ` set (allowed_labels a) \<Longrightarrow>
   \<exists>vs'. column df' ''area_for_improvement'' = Some vs' \<and> length vs' = length vs \<and>
         set vs' \<subseteq> Str ` set (allowed_labels a)"
proof (induction rs arbitrary: df calls vs)
  case Nil
  then show ?case by simp
next
  case (Cons ir rs)
  obtain i r where ir: "ir = (i, r)" by (cases ir)
  show ?case
  proof (cases "r ''text''")
    case None
    with Cons.prems ir show ?thesis by simp
  next
    case (Some t)
    show ?thesis
    proof (cases "get_area_for_improvement a svc t calls")
      case (Pair res calls1)
      show ?thesis
      proof (cases res)
        case (Inl e)
        with Cons.prems ir Some Pair show ?thesis by simp
      next
        case (Inr l)
        let ?df1 = "set_at df i ''area_for_improvement'' (Str l)"
        have run: "for_rows a svc rs ?df1 calls1 = (x, df', calls')"
          using Cons.prems(1) ir Some Pair Inr by simp
        have l: "l \<in> set (allowed_labels a)"
          using Pair Inr get_area_allowed by blast
        have c1: "column ?df1 ''area_for_improvement'' = Some (vs[i := Str l])"
          using Cons.prems(2) by (simp add: column_set_at)
        have s1: "set (vs[i := Str l]) \<subseteq> Str ` set (allowed_labels a)"
          using Cons.prems(3) l set_update_subset_insert [of vs i "Str l"] by blast
        from Cons.IH [OF run c1 s1] show ?thesis by simp
      qed
    qed
  qed
qed

lemma for_rows_other_columns:
  "for_rows a svc rs df calls = (x, df', calls') \<Longrightarrow> k \<noteq> ''area_for_improvement'' \<Longrightarrow>
   column df' k = column df k"
  by (induction rs arbitrary: df calls) (auto simp: column_set_at split: option.splits prod.splits sum.splits)


section \<open>The sample runs, evaluated\<close>

lemma sample_world_fields:
  "read_excel sample_world p = Inr sample_frame"
  "SimpleFeedbackAnalyzer sample_world env = Inr sample_analyzer"
  "completions_create sample_world = sample_service"
  "to_excel sample_world p df = None"
  by (simp_all add: SimpleFeedbackAnalyzer_def sample_world_def sample_analyzer_def)

lemma sample_analyzer_fields:
  "teaching_skills sample_analyzer = default_skills"
  "client sample_analyzer = \<lparr>api_key = Some ''sk-sample''\<rparr>"
  by (simp_all add: sample_analyzer_def)

lemmas run_defs =
  process_excel_file_def set_column_def column_names_def iterrows_def row_at_def set_at_def
  try_completion_def allowed_labels_def default_skills_def strip_def isspace_def upt_rec Let_def
  eval_nat_numeral

lemma sample_run:
  "process_excel_file sample_world ''in.xlsx'' ''out.xlsx'' ''.env'' =
     (Written ''out.xlsx''
        \<lparr>nrows = 3,
         cols = [(''id'', [Num 1, Num 2, Num 3]),
                 (''text'', [Str ''Teacher never circulated during group work'', Str [],
                             Str ''Great job, no concerns'']),
                 (''area_for_improvement'',
                    [Str ''Classroom Management'', Str ''none'', Str ''none''])]\<rparr>,
      [completion_request sample_analyzer ''Teacher never circulated during group work'',
       completion_request sample_analyzer ''Great job, no concerns''])"
  by (simp add: run_defs sample_world_fields sample_analyzer_fields sample_frame_def sample_service_def)


lemma sample_loop:
  "for_rows sample_analyzer sample_service
     (iterrows (set_column sample_frame ''area_for_improvement'' (Str ''none'')))
     (set_column sample_frame ''area_for_improvement'' (Str ''none'')) [] =
     (None,
      \<lparr>nrows = 3,
       cols = [(''id'', [Num 1, Num 2, Num 3]),
               (''text'', [Str ''Teacher never circulated during group work'', Str [],
                           Str ''Great job, no concerns'']),
               (''area_for_improvement'',
                  [Str ''Classroom Management'', Str ''none'', Str ''none''])]\<rparr>,
      [completion_request sample_analyzer ''Teacher never circulated during group work'',
       completion_request sample_analyzer ''Great job, no concerns''])"
  by (simp add: run_defs sample_analyzer_fields sample_frame_def sample_service_def)

section \<open>Whitespace trimming\<close>

lemma strip_decomposition:
  "\<exists>l r. s = l @ strip s @ r \<and> list_all isspace l \<and> list_all isspace r"
proof -
  let ?m = "dropWhile isspace s"
  have "s = takeWhile isspace s @ ?m" by simp
  moreover have "rev (takeWhile isspace (rev ?m) @ dropWhile isspace (rev ?m)) = rev (rev ?m)"
    by (simp only: takeWhile_dropWhile_id)
  then have "?m = strip s @ rev (takeWhile isspace (rev ?m))"
    by (simp only: rev_append rev_rev_ident strip_def)
  ultimately have "s = takeWhile isspace s @ strip s @ rev (takeWhile isspace (rev ?m))"
    by simp
  moreover have "list_all isspace (takeWhile isspace s)"
    by (auto simp: list_all_iff dest: set_takeWhileD)
  moreover have "list_all isspace (rev (takeWhile isspace (rev ?m)))"
    by (auto simp: list_all_iff dest: set_takeWhileD)
  ultimately show ?thesis by blast
qed

lemma strip_ends:
  assumes "strip s \<noteq> []"
  shows "\<not> isspace (hd (strip s)) \<and> \<not> isspace (last (strip s))"
proof -
  let ?m = "dropWhile isspace s"
  let ?d = "dropWhile isspace (rev ?m)"
  from assms have d: "?d \<noteq> []" by (simp add: strip_def)
  then have m: "?m \<noteq> []" by (metis dropWhile.simps(1) rev.simps(1))
  have "last (strip s) = hd ?d" using d by (simp add: strip_def last_rev)
  moreover have "\<not> isspace (hd ?d)" using d by (rule hd_dropWhile)
  moreover have "hd (strip s) = last ?d" using d by (simp add: strip_def hd_rev)
  moreover have "last ?d = last (rev ?m)"
    using d by (metis last_appendR takeWhile_dropWhile_id)
  moreover have "last (rev ?m) = hd ?m" using m by (simp add: last_rev)
  moreover have "\<not> isspace (hd ?m)" using m by (rule hd_dropWhile)
  ultimately show ?thesis by simp
qed

section \<open>Properties of a run\<close>

lemma init_skills:
  "SimpleFeedbackAnalyzer w env_path = Inr a \<Longrightarrow> teaching_skills a = default_skills"
  by (auto simp: SimpleFeedbackAnalyzer_def split: sum.splits)

lemma process_written:
  assumes "process_excel_file w input_file output_file env_path = (Written p df', calls)"
  shows "\<exists>df a. read_excel w input_file = Inr df \<and> SimpleFeedbackAnalyzer w env_path = Inr a \<and>
           for_rows a (completions_create w)
             (iterrows (set_column df ''area_for_improvement'' (Str ''none'')))
             (set_column df ''area_for_improvement'' (Str ''none'')) [] = (None, df', calls) \<and>
           to_excel w output_file df' = None \<and> p = output_file"
  using assms
  by (auto simp: process_excel_file_def Let_def split: sum.splits option.splits prod.splits)

lemma is_label_all:
  "set vs \<subseteq> Str ` set labels \<Longrightarrow> list_all (is_label labels) vs"
  by (auto simp: list_all_iff)

lemma coded_world_fields:
  "read_excel coded_world p = Inr coded_frame"
  "SimpleFeedbackAnalyzer coded_world env = Inr sample_analyzer"
  "completions_create coded_world = sample_service"
  "to_excel coded_world p df = None"
  by (simp_all add: SimpleFeedbackAnalyzer_def coded_world_def sample_world_def sample_analyzer_def)

lemma coded_run:
  "process_excel_file coded_world ''in.xlsx'' ''out.xlsx'' ''.env'' =
     (Written ''out.xlsx''
        \<lparr>nrows = 2,
         cols = [(''area_for_improvement'', [Str ''Classroom Management'', Str ''none'']),
                 (''text'', [Str ''Plan the lesson'', Str ''Speak up'']),
                 (''id'', [Num 1, Num 2])]\<rparr>,
      [completion_request sample_analyzer ''Plan the lesson'',
       completion_request sample_analyzer ''Speak up''])"
  by (simp add: run_defs coded_world_fields sample_analyzer_fields coded_frame_def sample_service_def)

lemma set_column_idem:
  "set_column (set_column df c v) c v = set_column df c v"
proof (cases "c \<in> set (column_names df)")
  case True
  then have "c \<in> set (column_names (set_column df c v))"
    by (simp add: column_names_set_column)
  with True show ?thesis
    by (simp add: set_column_def)
next
  case False
  then have notin: "c \<notin> fst ` set (cols df)"
    by (simp add: column_names_def)
  have "c \<in> set (column_names (set_column df c v))"
    using False by (simp add: column_names_set_column)
  then have "set_column (set_column df c v) c v =
      (set_column df c v)\<lparr>cols := map (\<lambda>kv. if fst kv = c then (c, replicate (nrows df) v) else kv)
        (cols (set_column df c v))\<rparr>"
    by (simp add: set_column_def)
  also have "cols (set_column df c v) = cols df @ [(c, replicate (nrows df) v)]"
    using False by (simp add: set_column_def)
  also have "map (\<lambda>kv. if fst kv = c then (c, replicate (nrows df) v) else kv)
      (cols df @ [(c, replicate (nrows df) v)]) = cols df @ [(c, replicate (nrows df) v)]"
    using cols_set_at_other [OF notin, where f = "\<lambda>vs. replicate (nrows df) v"] by simp
  finally show ?thesis
    using False by (simp add: set_column_def)
qed

lemma process_after_set_column:
  assumes "read_excel w input_file = Inr df"
  shows "process_excel_file
           (w\<lparr>read_excel := (read_excel w)(input_file := Inr (set_column df ''area_for_improvement'' (Str ''none'')))\<rparr>)
           input_file output_file env_path =
         process_excel_file w input_file output_file env_path"
  using assms
  by (cases "OpenAI w (getenv_key w env_path)")
     (simp_all add: process_excel_file_def SimpleFeedbackAnalyzer_def set_column_idem Let_def
        split: prod.splits option.splits)

section \<open>The loop over the rows of a frame\<close>

lemma try_completion_fails:
  "raises_in_try (svc (client a) (length calls) (completion_request a s)) \<Longrightarrow>
   try_completion a svc s calls = (''none'', calls @ [completion_request a s])"
  by (cases "svc (client a) (length calls) (completion_request a s)" rule: raises_in_try.cases)
     (simp_all add: try_completion_def Let_def)

lemma get_area_no_raise:
  assumes "\<not> raises_outside_try v"
  shows "\<exists>l c1. get_area_for_improvement a svc v calls = (Inr l, c1) \<and>
           length c1 = length calls + (if needs_call v then 1 else 0)"
  using assms
  by (cases v)
     (auto simp: raises_outside_try_def needs_call_def split: prod.splits dest: try_completion_calls)

lemma for_rows_indexed:
  assumes "\<forall>i\<in>set is. r i ''text'' = Some (t i)"
    and "for_rows a svc (map (\<lambda>i. (i, r i)) is) df calls = (x, df', calls')"
  shows "(x = None \<or> x = Some AttributeError) \<and>
         (x = None \<longleftrightarrow> (\<forall>i\<in>set is. \<not> raises_outside_try (t i))) \<and>
         length calls' \<le> length calls + length (filter (\<lambda>i. needs_call (t i)) is) \<and>
         (x = None \<longrightarrow>
            length calls' = length calls + length (filter (\<lambda>i. needs_call (t i)) is))"
  using assms
proof (induction "is" arbitrary: df calls)
  case Nil
  then show ?case by simp
next
  case (Cons i "is")
  have ti: "r i ''text'' = Some (t i)" and rest: "\<forall>k\<in>set is. r k ''text'' = Some (t k)"
    using Cons.prems(1) by simp_all
  show ?case
  proof (cases "raises_outside_try (t i)")
    case True
    then have "get_area_for_improvement a svc (t i) calls = (Inl AttributeError, calls)"
      by (simp add: get_area_cases)
    with Cons.prems(2) ti True show ?thesis by auto
  next
    case False
    obtain l c1 where g: "get_area_for_improvement a svc (t i) calls = (Inr l, c1)"
      and c1: "length c1 = length calls + (if needs_call (t i) then 1 else 0)"
      using get_area_no_raise [OF False] by blast
    have run: "for_rows a svc (map (\<lambda>i. (i, r i)) is)
        (set_at df i ''area_for_improvement'' (Str l)) c1 = (x, df', calls')"
      using Cons.prems(2) ti g by simp
    from Cons.IH [OF rest run] False c1 show ?thesis by auto
  qed
qed

lemma for_rows_untouched:
  "for_rows a svc rs df calls = (x, df', calls') \<Longrightarrow> j \<notin> fst ` set rs \<Longrightarrow>
   column df ''area_for_improvement'' = Some vs \<Longrightarrow>
   \<exists>vs'. column df' ''area_for_improvement'' = Some vs' \<and> length vs' = length vs \<and>
         vs' ! j = vs ! j"
proof (induction rs arbitrary: df calls vs)
  case Nil
  then show ?case by simp
next
  case (Cons ir rs)
  obtain i r where ir: "ir = (i, r)" by (cases ir)
  with Cons.prems(2) have ij: "i \<noteq> j" and notin: "j \<notin> fst ` set rs" by auto
  show ?case
  proof (cases "r ''text''")
    case None
    with Cons.prems ir show ?thesis by simp
  next
    case (Some t)
    show ?thesis
    proof (cases "get_area_for_improvement a svc t calls")
      case (Pair res calls1)
      show ?thesis
      proof (cases res)
        case (Inl e)
        with Cons.prems ir Some Pair show ?thesis by simp
      next
        case (Inr l)
        let ?df1 = "set_at df i ''area_for_improvement'' (Str l)"
        have run: "for_rows a svc rs ?df1 calls1 = (x, df', calls')"
          using Cons.prems(1) ir Some Pair Inr by simp
        have c1: "column ?df1 ''area_for_improvement'' = Some (vs[i := Str l])"
          using Cons.prems(3) by (simp add: column_set_at)
        from Cons.IH [OF run notin c1] ij show ?thesis by auto
      qed
    qed
  qed
qed

lemma count_upt_take:
  "j \<le> length ts \<Longrightarrow>
   length (filter (\<lambda>i. P (ts ! i)) [0..<j]) = length (filter P (take j ts))"
proof -
  assume j: "j \<le> length ts"
  have "take j ts = map (\<lambda>i. ts ! i) [0..<j]"
    using j by (intro nth_equalityI) auto
  then have "filter P (take j ts) = map (\<lambda>i. ts ! i) (filter (\<lambda>i. P (ts ! i)) [0..<j])"
    by (simp add: filter_map comp_def)
  then show ?thesis by simp
qed

lemma wf_column_length:
  "wf_dataframe df \<Longrightarrow> column df c = Some vs \<Longrightarrow> length vs = nrows df"
  by (auto simp: wf_dataframe_def column_def list_all_iff dest!: map_of_SomeD)

lemma iterrows_text:
  assumes "wf_dataframe df" and "column df ''text'' = Some ts"
  shows "iterrows (set_column df ''area_for_improvement'' v) =
           map (\<lambda>i. (i, row_at (set_column df ''area_for_improvement'' v) i)) [0..<length ts]"
    and "\<forall>i\<in>set [0..<length ts].
           row_at (set_column df ''area_for_improvement'' v) i ''text'' = Some (ts ! i)"
proof -
  have n: "length ts = nrows df"
    using assms by (rule wf_column_length)
  show "iterrows (set_column df ''area_for_improvement'' v) =
           map (\<lambda>i. (i, row_at (set_column df ''area_for_improvement'' v) i)) [0..<length ts]"
    by (simp add: iterrows_def n)
  have "column (set_column df ''area_for_improvement'' v) ''text'' = Some ts"
    using assms(2) by (simp add: column_set_column)
  then show "\<forall>i\<in>set [0..<length ts].
           row_at (set_column df ''area_for_improvement'' v) i ''text'' = Some (ts ! i)"
    by (simp add: row_at_def column_def)
qed

lemma for_rows_abort:
  assumes "\<forall>i\<in>set is1. r i ''text'' = Some (t i)" and "r j ''text'' = Some (t j)"
    and "raises_outside_try (t j)"
  shows "\<exists>d c. for_rows a svc (map (\<lambda>i. (i, r i)) (is1 @ j # is2)) df calls =
                 (Some AttributeError, d, c) \<and>
               length c \<le> length calls + length (filter (\<lambda>i. needs_call (t i)) is1)"
proof -
  obtain x1 d1 c1 where run1: "for_rows a svc (map (\<lambda>i. (i, r i)) is1) df calls = (x1, d1, c1)"
    by (metis prod_cases3)
  note facts = for_rows_indexed [OF assms(1) run1]
  have split: "map (\<lambda>i. (i, r i)) (is1 @ j # is2) =
      map (\<lambda>i. (i, r i)) is1 @ (j, r j) # map (\<lambda>i. (i, r i)) is2"
    by simp
  have gj: "get_area_for_improvement a svc (t j) c1 = (Inl AttributeError, c1)"
    using assms(3) by (simp add: get_area_cases)
  show ?thesis
  proof (cases x1)
    case None
    then have "for_rows a svc (map (\<lambda>i. (i, r i)) (is1 @ j # is2)) df calls =
        (Some AttributeError, d1, c1)"
      unfolding split for_rows_append run1 using assms(2) gj by simp
    with facts show ?thesis by simp
  next
    case (Some e)
    with facts have e: "e = AttributeError" by simp
    have "for_rows a svc (map (\<lambda>i. (i, r i)) (is1 @ j # is2)) df calls =
        (Some AttributeError, d1, c1)"
      unfolding split for_rows_append run1 using Some e by simp
    with facts show ?thesis by simp
  qed
qed

lemma gap_world_fields:
  "read_excel gap_world p = Inr gap_frame"
  "SimpleFeedbackAnalyzer gap_world env = Inr sample_analyzer"
  "completions_create gap_world = sample_service"
  "to_excel gap_world p df = None"
  by (simp_all add: SimpleFeedbackAnalyzer_def gap_world_def sample_world_def sample_analyzer_def)

lemma gap_run:
  "process_excel_file gap_world ''in.xlsx'' ''out.xlsx'' ''.env'' =
     (Aborted AttributeError, [completion_request sample_analyzer ''Plan the lesson''])"
  by (simp add: run_defs gap_world_fields sample_analyzer_fields gap_frame_def sample_service_def)

lemma get_area_remote_failure:
  assumes "s \<noteq> []"
    and "raises_in_try (svc (client a) (length calls) (completion_request a s))"
  shows "get_area_for_improvement a svc (Str s) calls =
           (Inr ''none'', calls @ [completion_request a s])"
  using assms by (simp add: try_completion_fails)

lemma get_area_extends:
  "get_area_for_improvement a svc v calls = (res, c1) \<Longrightarrow> \<exists>ext. c1 = calls @ ext"
  by (cases v) (auto split: if_splits prod.splits dest: try_completion_calls)

lemma for_rows_extends:
  "for_rows a svc rs df calls = (x, df', calls') \<Longrightarrow> \<exists>ext. calls' = calls @ ext"
proof (induction rs arbitrary: df calls)
  case Nil
  then show ?case by simp
next
  case (Cons ir rs)
  obtain i r where ir: "ir = (i, r)" by (cases ir)
  show ?case
  proof (cases "r ''text''")
    case None
    with Cons.prems ir show ?thesis by simp
  next
    case (Some t)
    obtain res c1 where g: "get_area_for_improvement a svc t calls = (res, c1)"
      by (cases "get_area_for_improvement a svc t calls")
    from get_area_extends [OF g] obtain e1 where e1: "c1 = calls @ e1" ..
    show ?thesis
    proof (cases res)
      case (Inl e)
      with Cons.prems ir Some g e1 show ?thesis by auto
    next
      case (Inr l)
      with Cons.prems ir Some g
      have "for_rows a svc rs (set_at df i ''area_for_improvement'' (Str l)) c1 = (x, df', calls')"
        by simp
      from Cons.IH [OF this] e1 show ?thesis by auto
    qed
  qed
qed

lemma failing_world_fields:
  "read_excel failing_world p = Inr sample_frame"
  "SimpleFeedbackAnalyzer failing_world env = Inr sample_analyzer"
  "completions_create failing_world c n req = Raises APIConnectionError"
  "to_excel failing_world p df = None"
  by (simp_all add: SimpleFeedbackAnalyzer_def failing_world_def sample_world_def sample_analyzer_def)

section \<open>A service that rejects every request\<close>

text \<open>
  The script hands \<^verbatim>\<open>os.getenv("OPENAI_API_KEY")\<close> to the constructor of the client without
  looking at it. What happens when the key is absent is therefore decided by the client
  library, in one of two ways: the constructor raises, and the run is aborted before any row
  is read; or the constructor returns a client whose requests are all rejected, and every
  row is labelled \<^verbatim>\<open>none\<close>.
\<close>

lemma get_area_rejected:
  assumes "\<forall>n req. raises_in_try (svc (client a) n req)" and "\<not> raises_outside_try v"
  shows "\<exists>c1. get_area_for_improvement a svc v calls = (Inr ''none'', c1)"
  using assms
  by (cases v) (auto simp: raises_outside_try_def try_completion_fails)

lemma for_rows_rejected:
  assumes "\<forall>n req. raises_in_try (svc (client a) n req)"
    and "\<forall>i\<in>set is. r i ''text'' = Some (t i) \<and> \<not> raises_outside_try (t i)"
    and "for_rows a svc (map (\<lambda>i. (i, r i)) is) df calls = (x, df', calls')"
    and "column df ''area_for_improvement'' = Some (replicate n (Str ''none''))"
  shows "column df' ''area_for_improvement'' = Some (replicate n (Str ''none''))"
  using assms(2-4)
proof (induction "is" arbitrary: df calls)
  case Nil
  then show ?case by simp
next
  case (Cons i "is")
  have ti: "r i ''text'' = Some (t i)" and ok: "\<not> raises_outside_try (t i)"
    using Cons.prems(1) by simp_all
  from get_area_rejected [where svc = svc and a = a, OF assms(1) ok] obtain c1 where
    g: "get_area_for_improvement a svc (t i) calls = (Inr ''none'', c1)"
    by blast
  let ?df1 = "set_at df i ''area_for_improvement'' (Str ''none'')"
  have run: "for_rows a svc (map (\<lambda>i. (i, r i)) is) ?df1 c1 = (x, df', calls')"
    using Cons.prems(2) ti g by simp
  have "(replicate n (Str ''none''))[i := Str ''none''] = replicate n (Str ''none'')"
  proof (cases "i < n")
    case True
    then have "replicate n (Str ''none'') ! i = Str ''none''" by simp
    then show ?thesis by (metis list_update_id)
  next
    case False
    then have "length (replicate n (Str ''none'')) \<le> i" by simp
    then show ?thesis by (rule list_update_beyond)
  qed
  then have c1: "column ?df1 ''area_for_improvement'' = Some (replicate n (Str ''none''))"
    using Cons.prems(3) by (simp add: column_set_at)
  from Cons.IH [OF _ run c1] Cons.prems(1) show ?case by simp
qed

lemma absent_key_constructor_raises:
  assumes "read_excel w input_file = Inr df" and "getenv_key w env_path = None"
    and "OpenAI w None = Inl e"
  shows "process_excel_file w input_file output_file env_path = (Aborted e, [])"
  using assms by (simp add: process_excel_file_def SimpleFeedbackAnalyzer_def)

lemma absent_key_requests_rejected:
  assumes "read_excel w input_file = Inr df" and "wf_dataframe df"
    and "column df ''text'' = Some ts" and "\<forall>t\<in>set ts. \<not> raises_outside_try t"
    and "getenv_key w env_path = None" and "OpenAI w None = Inr c"
    and "\<forall>n req. completions_create w c n req = Raises AuthenticationError"
    and "\<forall>d. to_excel w output_file d = None"
  shows "\<exists>df' calls.
           process_excel_file w input_file output_file env_path = (Written output_file df', calls) \<and>
           length calls = length (filter needs_call ts) \<and>
           column df' ''area_for_improvement'' = Some (replicate (length ts) (Str ''none''))"
proof -
  let ?c = "''area_for_improvement''"
  let ?df1 = "set_column df ?c (Str ''none'')"
  let ?a = "\<lparr>client = c, teaching_skills = default_skills\<rparr>"
  have init: "SimpleFeedbackAnalyzer w env_path = Inr ?a"
    using assms(5,6) by (simp add: SimpleFeedbackAnalyzer_def)
  have n: "length ts = nrows df"
    using assms(2,3) by (rule wf_column_length)
  have rows: "iterrows ?df1 = map (\<lambda>i. (i, row_at ?df1 i)) [0..<length ts]"
    and texts: "\<forall>i\<in>set [0..<length ts]. row_at ?df1 i ''text'' = Some (ts ! i)"
    using iterrows_text [OF assms(2,3)] by blast+
  have ok: "\<forall>i\<in>set [0..<length ts]. \<not> raises_outside_try (ts ! i)"
    using assms(4) by simp
  obtain x d calls where
    run: "for_rows ?a (completions_create w) (map (\<lambda>i. (i, row_at ?df1 i)) [0..<length ts]) ?df1 [] =
            (x, d, calls)"
    by (cases "for_rows ?a (completions_create w) (map (\<lambda>i. (i, row_at ?df1 i)) [0..<length ts]) ?df1 []")
  from for_rows_indexed [where t = "\<lambda>i. ts ! i", OF texts run] ok
  have x: "x = None" and "length calls = length (filter (\<lambda>i. needs_call (ts ! i)) [0..<length ts])"
    by auto
  then have len: "length calls = length (filter needs_call ts)"
    using count_upt_take [of "length ts" ts needs_call] by simp
  have rej: "\<forall>n req. raises_in_try (completions_create w (client ?a) n req)"
    using assms(7) by simp
  have both: "\<forall>i\<in>set [0..<length ts].
      row_at ?df1 i ''text'' = Some (ts ! i) \<and> \<not> raises_outside_try (ts ! i)"
    using texts ok by blast
  have c0: "column ?df1 ?c = Some (replicate (length ts) (Str ''none''))"
    by (simp add: column_set_column n)
  have col: "column d ?c = Some (replicate (length ts) (Str ''none''))"
    using for_rows_rejected [where t = "\<lambda>i. ts ! i" and svc = "completions_create w" and a = ?a,
        OF rej both run c0] .
  have "process_excel_file w input_file output_file env_path = (Written output_file d, calls)"
    using assms(1,8) init run x by (simp add: process_excel_file_def Let_def rows)
  with len col show ?thesis by simp
qed

section \<open>The written column, row by row\<close>

lemma join_closed_form:
  "join sep xs = (if xs = [] then [] else hd xs @ concat (map (\<lambda>x. sep @ x) (tl xs)))"
  by (induction sep xs rule: join.induct) simp_all

lemma for_rows_row_labels:
  assumes "\<forall>i\<in>set is. r i ''text'' = Some (t i) \<and> i < length vs" and "distinct is"
    and "for_rows a svc (map (\<lambda>i. (i, r i)) is) df calls = (None, df', calls')"
    and "column df ''area_for_improvement'' = Some vs"
  shows "\<exists>vs'. column df' ''area_for_improvement'' = Some vs' \<and> length vs' = length vs \<and>
           map (\<lambda>i. vs' ! i) is = row_labels a svc (map t is) calls"
  using assms
proof (induction "is" arbitrary: df calls vs)
  case Nil
  then show ?case by simp
next
  case (Cons i "is")
  let ?c = "''area_for_improvement''"
  have ti: "r i ''text'' = Some (t i)" and i: "i < length vs" and notin: "i \<notin> set is"
    and dist: "distinct is"
    using Cons.prems(1,2) by simp_all
  obtain res c1 where g: "get_area_for_improvement a svc (t i) calls = (res, c1)"
    by (cases "get_area_for_improvement a svc (t i) calls")
  show ?case
  proof (cases res)
    case (Inl e)
    with Cons.prems(3) ti g show ?thesis by simp
  next
    case (Inr l)
    let ?df1 = "set_at df i ?c (Str l)"
    have run: "for_rows a svc (map (\<lambda>i. (i, r i)) is) ?df1 c1 = (None, df', calls')"
      using Cons.prems(3) ti g Inr by simp
    have c1: "column ?df1 ?c = Some (vs[i := Str l])"
      using Cons.prems(4) by (simp add: column_set_at)
    have rest: "\<forall>k\<in>set is. r k ''text'' = Some (t k) \<and> k < length (vs[i := Str l])"
      using Cons.prems(1) by simp
    from Cons.IH [OF rest dist run c1] obtain vs' where
      vs': "column df' ?c = Some vs'" "length vs' = length vs"
        "map (\<lambda>i. vs' ! i) is = row_labels a svc (map t is) c1"
      by auto
    have "i \<notin> fst ` set (map (\<lambda>i. (i, r i)) is)"
      using notin by (auto simp: image_iff)
    from for_rows_untouched [OF run this c1] vs'(1) i
    have "vs' ! i = Str l" by auto
    with vs' g Inr show ?thesis by simp
  qed
qed

lemma written_column_is_row_labels:
  assumes "read_excel w input_file = Inr df" and "wf_dataframe df"
    and "column df ''text'' = Some ts"
    and "process_excel_file w input_file output_file env_path = (Written p df', calls)"
  shows "\<exists>a. SimpleFeedbackAnalyzer w env_path = Inr a \<and>
           column df' ''area_for_improvement'' = Some (row_labels a (completions_create w) ts [])"
proof -
  let ?c = "''area_for_improvement''"
  let ?df1 = "set_column df ?c (Str ''none'')"
  from process_written [OF assms(4)] assms(1) obtain a where
    init: "SimpleFeedbackAnalyzer w env_path = Inr a" and
    run: "for_rows a (completions_create w) (iterrows ?df1) ?df1 [] = (None, df', calls)"
    by auto
  have n: "length ts = nrows df"
    using assms(2,3) by (rule wf_column_length)
  have rows: "iterrows ?df1 = map (\<lambda>i. (i, row_at ?df1 i)) [0..<length ts]"
    and texts: "\<forall>i\<in>set [0..<length ts]. row_at ?df1 i ''text'' = Some (ts ! i)"
    using iterrows_text [OF assms(2,3)] by blast+
  have c0: "column ?df1 ?c = Some (replicate (nrows df) (Str ''none''))"
    by (simp add: column_set_column)
  have pre: "\<forall>i\<in>set [0..<length ts].
      row_at ?df1 i ''text'' = Some (ts ! i) \<and> i < length (replicate (nrows df) (Str ''none''))"
    using texts n by simp
  from for_rows_row_labels [where t = "\<lambda>i. ts ! i" and r = "row_at ?df1", OF pre _ run [unfolded rows] c0]
  obtain vs where vs: "column df' ?c = Some vs" "length vs = nrows df"
    "map (\<lambda>i. vs ! i) [0..<length ts] = row_labels a (completions_create w) (map (\<lambda>i. ts ! i) [0..<length ts]) []"
    by auto
  have "map (\<lambda>i. vs ! i) [0..<length vs] = vs" and "map (\<lambda>i. ts ! i) [0..<length ts] = ts"
    by (rule map_nth)+
  with vs n have "vs = row_labels a (completions_create w) ts []"
    by simp
  with init vs(1) show ?thesis by simp
qed

lemma written_other_columns:
  assumes "read_excel w input_file = Inr df"
    and "process_excel_file w input_file output_file env_path = (Written p df', calls)"
  shows "nrows df' = nrows df \<and>
         (\<forall>k. k \<noteq> ''area_for_improvement'' \<longrightarrow> column df' k = column df k) \<and>
         column_names df' =
           (if ''area_for_improvement'' \<in> set (column_names df) then column_names df
            else column_names df @ [''area_for_improvement''])"
proof -
  let ?c = "''area_for_improvement''"
  let ?df1 = "set_column df ?c (Str ''none'')"
  from process_written [OF assms(2)] assms(1) obtain a where
    run: "for_rows a (completions_create w) (iterrows ?df1) ?df1 [] = (None, df', calls)"
    by auto
  have "nrows df' = nrows df"
    using for_rows_nrows [OF run] by simp
  moreover have "column df' k = column df k" if "k \<noteq> ?c" for k
    using for_rows_other_columns [OF run that] that by (simp add: column_set_column)
  moreover have "column_names df' = column_names ?df1"
    using for_rows_column_names [OF run] .
  ultimately show ?thesis
    by (simp add: column_names_set_column)
qed

lemma frame_preserved_without_result_column:
  assumes "read_excel w input_file = Inr df"
    and "''area_for_improvement'' \<notin> set (column_names df)"
    and "process_excel_file w input_file output_file env_path = (Written p df', calls)"
  shows "p = output_file \<and> adds_one_column df ''area_for_improvement'' df' \<and>
         (\<exists>vs. cols df' = cols df @ [(''area_for_improvement'', vs)])"
proof -
  let ?c = "''area_for_improvement''"
  let ?df1 = "set_column df ?c (Str ''none'')"
  from process_written [OF assms(3)] assms(1) obtain a where
    run: "for_rows a (completions_create w) (iterrows ?df1) ?df1 [] = (None, df', calls)"
    and p: "p = output_file"
    by auto
  have c1: "cols ?df1 = cols df @ [(?c, replicate (nrows df) (Str ''none''))]"
    using assms(2) by (simp add: set_column_def)
  have notin: "?c \<notin> fst ` set (cols df)"
    using assms(2) by (simp add: column_names_def)
  from for_rows_appended_column [OF run c1 notin] obtain vs where
    vs: "cols df' = cols df @ [(?c, vs)]" "length vs = nrows df"
    by auto
  have n: "nrows df' = nrows df"
    using for_rows_nrows [OF run] by simp
  from p n vs show ?thesis
    by (simp add: adds_one_column_def)
qed

section \<open>The claims\<close>

text \<open>
  Claim C1 asks that a text of whitespace only is labelled \<^verbatim>\<open>"none"\<close> without a request.
  The guard strips the text but compares the length with \<open>< 0\<close>, so a text of three spaces
  passes it: the request is made and the answer of the service becomes the label.
\<close>

theorem C1_whitespace_text_reaches_service:
  "get_area_for_improvement sample_analyzer (echo_service ''Communication'') (Str ''   '') [] =
     (Inr ''Communication'', [completion_request sample_analyzer ''   ''])"
  by (simp add: try_completion_def echo_service_def strip_def isspace_def allowed_labels_def
      sample_analyzer_fields default_skills_def)

text \<open>
  Claim C2. Every label \<^verbatim>\<open>get_area_for_improvement\<close> returns is one of the allowed labels
  of the analyzer. Wherever the loop over the rows stops, after any number of rows, the
  column \<^verbatim>\<open>area_for_improvement\<close> of the frame in memory holds exactly one cell per row,
  each an allowed label. In every frame the pipeline writes, that column holds one cell per
  row of the input, each a string out of the seven teaching skills, \<^verbatim>\<open>other\<close>,
  \<^verbatim>\<open>none\<close> and \<^verbatim>\<open>multiple\<close>.
\<close>

theorem C2_stored_labels_are_allowed:
  "(get_area_for_improvement a svc v cs = (Inr l, cs') \<longrightarrow> l \<in> set (allowed_labels a)) \<and>
   (for_rows a svc rs (set_column df0 ''area_for_improvement'' (Str ''none'')) cs = (x, d, cs') \<longrightarrow>
      (\<exists>vs. column d ''area_for_improvement'' = Some vs \<and> length vs = nrows df0 \<and>
            list_all (is_label (allowed_labels a)) vs)) \<and>
   (process_excel_file w input_file output_file env_path = (Written p df', calls) \<longrightarrow>
      (\<exists>df vs. read_excel w input_file = Inr df \<and> nrows df' = nrows df \<and>
         column df' ''area_for_improvement'' = Some vs \<and> length vs = nrows df \<and>
         list_all (is_label (default_skills @ [''other'', ''none'', ''multiple''])) vs))"
proof (intro conjI impI)
  assume "get_area_for_improvement a svc v cs = (Inr l, cs')"
  then show "l \<in> set (allowed_labels a)"
    by (rule get_area_allowed)
next
  let ?c = "''area_for_improvement''"
  assume run: "for_rows a svc rs (set_column df0 ?c (Str ''none'')) cs = (x, d, cs')"
  have c0: "column (set_column df0 ?c (Str ''none'')) ?c = Some (replicate (nrows df0) (Str ''none''))"
    by (simp add: column_set_column)
  have s0: "set (replicate (nrows df0) (Str ''none'')) \<subseteq> Str ` set (allowed_labels a)"
    by (auto simp: allowed_labels_def)
  from for_rows_labels [OF run c0 s0] is_label_all [of _ "allowed_labels a"]
  show "\<exists>vs. column d ?c = Some vs \<and> length vs = nrows df0 \<and>
            list_all (is_label (allowed_labels a)) vs"
    by auto
next
  let ?c = "''area_for_improvement''"
  assume written: "process_excel_file w input_file output_file env_path = (Written p df', calls)"
  from process_written [OF written] obtain df an where
    rd: "read_excel w input_file = Inr df" and
    init: "SimpleFeedbackAnalyzer w env_path = Inr an" and
    run: "for_rows an (completions_create w) (iterrows (set_column df ?c (Str ''none'')))
            (set_column df ?c (Str ''none'')) [] = (None, df', calls)"
    by blast
  have al: "allowed_labels an = default_skills @ [''other'', ''none'', ''multiple'']"
    using init_skills [OF init] by (simp add: allowed_labels_def)
  have c0: "column (set_column df ?c (Str ''none'')) ?c = Some (replicate (nrows df) (Str ''none''))"
    by (simp add: column_set_column)
  have s0: "set (replicate (nrows df) (Str ''none'')) \<subseteq> Str ` set (allowed_labels an)"
    by (auto simp: allowed_labels_def)
  from for_rows_labels [OF run c0 s0] obtain vs where
    vs: "column df' ?c = Some vs" "length vs = nrows df" "set vs \<subseteq> Str ` set (allowed_labels an)"
    by auto
  have n: "nrows df' = nrows df"
    using for_rows_nrows [OF run] by simp
  from rd n vs is_label_all [of vs "allowed_labels an"]
  show "\<exists>df vs. read_excel w input_file = Inr df \<and> nrows df' = nrows df \<and>
         column df' ?c = Some vs \<and> length vs = nrows df \<and>
         list_all (is_label (default_skills @ [''other'', ''none'', ''multiple''])) vs"
    by (auto simp: al)
qed

theorem C2_stored_labels_are_allowed_witness:
  "''Classroom Management'' \<in> set (allowed_labels sample_analyzer) \<and>
   list_all (is_label (allowed_labels sample_analyzer))
     [Str ''Classroom Management'', Str ''none'', Str ''none''] \<and>
   (\<exists>df vs. read_excel sample_world ''in.xlsx'' = Inr df \<and> 3 = nrows df \<and>
      Some [Str ''Classroom Management'', Str ''none'', Str ''none''] = Some vs \<and>
      length vs = nrows df \<and>
      list_all (is_label (default_skills @ [''other'', ''none'', ''multiple''])) vs)"
proof -
  let ?out = "\<lparr>nrows = 3,
         cols = [(''id'', [Num 1, Num 2, Num 3]),
                 (''text'', [Str ''Teacher never circulated during group work'', Str [],
                             Str ''Great job, no concerns'']),
                 (''area_for_improvement'',
                    [Str ''Classroom Management'', Str ''none'', Str ''none''])]\<rparr>"
  let ?calls = "[completion_request sample_analyzer ''Teacher never circulated during group work'',
          completion_request sample_analyzer ''Great job, no concerns'']"
  have g: "get_area_for_improvement sample_analyzer (echo_service ''Classroom Management'')
      (Str ''Walk around'') [] =
      (Inr ''Classroom Management'', [completion_request sample_analyzer ''Walk around''])"
    by (simp add: try_completion_def echo_service_def strip_def isspace_def allowed_labels_def
        sample_analyzer_fields default_skills_def)
  note c1 = C2_stored_labels_are_allowed [where a = sample_analyzer
      and svc = "echo_service ''Classroom Management''" and v = "Str ''Walk around''" and cs = "[]"
      and l = "''Classroom Management''"
      and cs' = "[completion_request sample_analyzer ''Walk around'']"]
  note c2 = C2_stored_labels_are_allowed [where a = sample_analyzer and svc = sample_service
      and rs = "iterrows (set_column sample_frame ''area_for_improvement'' (Str ''none''))"
      and ?df0.0 = sample_frame and cs = "[]" and x = None and d = ?out and cs' = ?calls
      and w = sample_world and input_file = "''in.xlsx''" and output_file = "''out.xlsx''"
      and env_path = "''.env''" and p = "''out.xlsx''" and calls = ?calls and df' = ?out]
  from c1 g have "''Classroom Management'' \<in> set (allowed_labels sample_analyzer)"
    by blast
  moreover from c2 sample_loop
  have "\<exists>vs. column ?out ''area_for_improvement'' = Some vs \<and> length vs = nrows sample_frame \<and>
      list_all (is_label (allowed_labels sample_analyzer)) vs"
    by blast
  moreover from c2 sample_run
  have "\<exists>df vs. read_excel sample_world ''in.xlsx'' = Inr df \<and> nrows ?out = nrows df \<and>
      column ?out ''area_for_improvement'' = Some vs \<and> length vs = nrows df \<and>
      list_all (is_label (default_skills @ [''other'', ''none'', ''multiple''])) vs"
    by blast
  ultimately show ?thesis
    by (simp add: column_def)
qed

text \<open>
  Claim C3. When the service answers a non-empty feedback string with a content string, the
  label returned is the content with its surrounding whitespace removed if that is one of
  the teaching skills of the analyzer or one of \<^verbatim>\<open>other\<close>, \<^verbatim>\<open>none\<close>, \<^verbatim>\<open>multiple\<close>,
  and \<^verbatim>\<open>other\<close> if it is not. Removing the surrounding whitespace means: the content is
  the trimmed string between two runs of whitespace, and the trimmed string neither starts
  nor ends with whitespace.
\<close>

theorem C3_response_coercion:
  assumes "s \<noteq> []"
    and "svc (client a) (length calls) (completion_request a s) = Response (Some content # others)"
  shows "get_area_for_improvement a svc (Str s) calls =
           (Inr (if strip content \<in> set (teaching_skills a) \<union> {''other'', ''none'', ''multiple''}
                 then strip content else ''other''),
            calls @ [completion_request a s]) \<and>
         (\<exists>l r. content = l @ strip content @ r \<and> list_all isspace l \<and> list_all isspace r) \<and>
         (strip content \<noteq> [] \<longrightarrow>
            \<not> isspace (hd (strip content)) \<and> \<not> isspace (last (strip content)))"
  using assms strip_decomposition [of content] strip_ends [of content]
  by (simp add: try_completion_def Let_def allowed_labels_def)

theorem C3_response_coercion_witness:
  "get_area_for_improvement sample_analyzer (echo_service '' Time Management '') (Str ''Be on time'') [] =
     (Inr ''other'', [completion_request sample_analyzer ''Be on time'']) \<and>
   get_area_for_improvement sample_analyzer (echo_service ''  Lesson Planning  '') (Str ''Be on time'') [] =
     (Inr ''Lesson Planning'', [completion_request sample_analyzer ''Be on time'']) \<and>
   get_area_for_improvement sample_analyzer (echo_service '' none'') (Str ''Be on time'') [] =
     (Inr ''none'', [completion_request sample_analyzer ''Be on time'']) \<and>
   get_area_for_improvement sample_analyzer (echo_service ''multiple '') (Str ''Be on time'') [] =
     (Inr ''multiple'', [completion_request sample_analyzer ''Be on time'']) \<and>
   get_area_for_improvement sample_analyzer (echo_service ''other'') (Str ''Be on time'') [] =
     (Inr ''other'', [completion_request sample_analyzer ''Be on time'']) \<and>
   get_area_for_improvement sample_analyzer (echo_service ''None.'') (Str ''Be on time'') [] =
     (Inr ''other'', [completion_request sample_analyzer ''Be on time''])"
proof -
  have skills: "teaching_skills sample_analyzer = default_skills"
    by (simp add: sample_analyzer_fields)
  have c: "get_area_for_improvement sample_analyzer (echo_service answer) (Str ''Be on time'') [] =
      (Inr (if strip answer \<in> set (teaching_skills sample_analyzer) \<union> {''other'', ''none'', ''multiple''}
            then strip answer else ''other''),
       [completion_request sample_analyzer ''Be on time''])" for answer
    using C3_response_coercion [where s = "''Be on time''" and svc = "echo_service answer"
        and a = sample_analyzer and calls = "[]" and content = answer and others = "[]"]
    by (simp add: echo_service_def)
  have "strip '' Time Management '' = ''Time Management''"
    "strip ''  Lesson Planning  '' = ''Lesson Planning''"
    "strip '' none'' = ''none''" "strip ''multiple '' = ''multiple''"
    "strip ''other'' = ''other''" "strip ''None.'' = ''None.''"
    by (simp_all add: strip_def isspace_def)
  with c [of "'' Time Management ''"] c [of "''  Lesson Planning  ''"] c [of "'' none''"]
    c [of "''multiple ''"] c [of "''other''"] c [of "''None.''"]
  show ?thesis
    by (simp add: skills default_skills_def)
qed

text \<open>
  Claim C4. When the request for a non-empty feedback string raises inside the \<^verbatim>\<open>try\<close>
  (the call raises, or the response is malformed: no choice, or no content),
  \<^verbatim>\<open>get_area_for_improvement\<close> returns \<^verbatim>\<open>"none"\<close>. In the pipeline: let the frame be read,
  the analyzer built and the output path writable, and let every text cell be a string or
  falsy. Then, whatever the service does, the run ends with the frame written; one request
  was made for every non-empty string, also for the rows after a failed request; there is one
  label per row; and a row \<open>j\<close> whose request (the one numbered by the non-empty strings
  before it) raised is labelled \<^verbatim>\<open>none\<close>.
\<close>

theorem C4_remote_failure_labels_none:
  assumes "read_excel w input_file = Inr df" and "wf_dataframe df"
    and "column df ''text'' = Some ts"
    and "\<forall>t\<in>set ts. \<not> raises_outside_try t"
    and "SimpleFeedbackAnalyzer w env_path = Inr a"
    and "\<forall>d. to_excel w output_file d = None"
    and "j < length ts" and "ts ! j = Str s" and "s \<noteq> []"
    and "raises_in_try (completions_create w (client a)
           (length (filter needs_call (take j ts))) (completion_request a s))"
  shows "(raises_in_try (completions_create w (client a) (length c0) (completion_request a s)) \<longrightarrow>
            get_area_for_improvement a (completions_create w) (Str s) c0 =
              (Inr ''none'', c0 @ [completion_request a s])) \<and>
         (\<exists>df' calls vs.
           process_excel_file w input_file output_file env_path = (Written output_file df', calls) \<and>
           length calls = length (filter needs_call ts) \<and>
           calls ! length (filter needs_call (take j ts)) = completion_request a s \<and>
           column df' ''area_for_improvement'' = Some vs \<and> length vs = length ts \<and>
           vs ! j = Str ''none'')"
proof -
  let ?c = "''area_for_improvement''"
  let ?df1 = "set_column df ?c (Str ''none'')"
  let ?svc = "completions_create w"
  let ?f = "\<lambda>i. (i, row_at ?df1 i)"
  let ?k = "length (filter needs_call (take j ts))"
  have n: "length ts = nrows df"
    using assms(2,3) by (rule wf_column_length)
  have rows: "iterrows ?df1 = map ?f [0..<length ts]"
    and texts: "\<forall>i\<in>set [0..<length ts]. row_at ?df1 i ''text'' = Some (ts ! i)"
    using iterrows_text [OF assms(2,3)] by blast+
  have ok: "\<forall>i\<in>set [0..<length ts]. \<not> raises_outside_try (ts ! i)"
    using assms(4) by simp
  have upt: "[0..<length ts] = [0..<j] @ j # [Suc j..<length ts]"
    using assms(7) upt_add_eq_append [of 0 j "length ts - j"] upt_conv_Cons [of j "length ts"]
    by simp
  have t1: "\<forall>i\<in>set [0..<j]. row_at ?df1 i ''text'' = Some (ts ! i)"
    and t3: "\<forall>i\<in>set [Suc j..<length ts]. row_at ?df1 i ''text'' = Some (ts ! i)"
    and tj: "row_at ?df1 j ''text'' = Some (Str s)"
    using texts assms(7,8) by simp_all
  have c0: "column ?df1 ?c = Some (replicate (nrows df) (Str ''none''))"
    by (simp add: column_set_column)
  \<comment> \<open>the rows before \<open>j\<close>\<close>
  obtain x1 d1 c1 where run1: "for_rows a ?svc (map ?f [0..<j]) ?df1 [] = (x1, d1, c1)"
    by (cases "for_rows a ?svc (map ?f [0..<j]) ?df1 []")
  from for_rows_indexed [where t = "\<lambda>i. ts ! i", OF t1 run1] ok assms(7)
  have x1: "x1 = None" and "length c1 = length (filter (\<lambda>i. needs_call (ts ! i)) [0..<j])"
    by auto
  then have lc1: "length c1 = ?k"
    using count_upt_take [of j ts needs_call] assms(7) by simp
  have "j \<notin> fst ` set (map ?f [0..<j])"
    by (auto simp: image_iff)
  from for_rows_untouched [OF run1 this c0] obtain v1 where
    v1: "column d1 ?c = Some v1" "length v1 = nrows df"
    by auto
  \<comment> \<open>row \<open>j\<close>: the request fails\<close>
  have gj: "get_area_for_improvement a ?svc (Str s) c1 = (Inr ''none'', c1 @ [completion_request a s])"
    using assms(9,10) get_area_remote_failure [of s ?svc a c1] by (simp add: lc1)
  let ?d2 = "set_at d1 j ?c (Str ''none'')"
  have v2: "column ?d2 ?c = Some (v1[j := Str ''none''])"
    using v1 by (simp add: column_set_at)
  \<comment> \<open>the rows after \<open>j\<close>\<close>
  obtain x3 d3 c3 where
    run3: "for_rows a ?svc (map ?f [Suc j..<length ts]) ?d2 (c1 @ [completion_request a s]) = (x3, d3, c3)"
    by (cases "for_rows a ?svc (map ?f [Suc j..<length ts]) ?d2 (c1 @ [completion_request a s])")
  from for_rows_indexed [where t = "\<lambda>i. ts ! i", OF t3 run3] ok
  have x3: "x3 = None" by auto
  have "j \<notin> fst ` set (map ?f [Suc j..<length ts])"
    by (auto simp: image_iff)
  from for_rows_untouched [OF run3 this v2] obtain v3 where
    v3: "column d3 ?c = Some v3" "length v3 = length v1" "v3 ! j = (v1[j := Str ''none'']) ! j"
    by auto
  have vj: "v3 ! j = Str ''none''"
    using v3(3) v1(2) n assms(7) by simp
  have ext: "\<exists>ext. c3 = c1 @ completion_request a s # ext"
    using for_rows_extends [OF run3] by auto
  have whole: "for_rows a ?svc (iterrows ?df1) ?df1 [] = (None, d3, c3)"
    unfolding rows upt
    using run1 x1 tj gj run3 x3
    by (simp add: for_rows_append)
  from for_rows_indexed [where t = "\<lambda>i. ts ! i", OF texts whole [unfolded rows]]
  have "length c3 = length (filter (\<lambda>i. needs_call (ts ! i)) [0..<length ts])"
    by simp
  then have lc3: "length c3 = length (filter needs_call ts)"
    using count_upt_take [of "length ts" ts needs_call] by simp
  have cj: "c3 ! ?k = completion_request a s"
    using ext lc1 by (auto simp: nth_append)
  have "process_excel_file w input_file output_file env_path = (Written output_file d3, c3)"
    using assms(1,5,6) whole by (simp add: process_excel_file_def Let_def)
  with lc3 cj v3(1,2) v1(2) n vj get_area_remote_failure [OF assms(9), of ?svc a c0] show ?thesis
    by simp
qed

theorem C4_remote_failure_labels_none_witness:
  "get_area_for_improvement sample_analyzer (completions_create failing_world)
     (Str ''Teacher never circulated during group work'') [] =
     (Inr ''none'', [completion_request sample_analyzer ''Teacher never circulated during group work'']) \<and>
   (\<exists>df' calls vs.
      process_excel_file failing_world ''in.xlsx'' ''out.xlsx'' ''.env'' = (Written ''out.xlsx'' df', calls) \<and>
      length calls = 2 \<and>
      calls ! 0 = completion_request sample_analyzer ''Teacher never circulated during group work'' \<and>
      column df' ''area_for_improvement'' = Some vs \<and> length vs = 3 \<and> vs ! 0 = Str ''none'')"
  using C4_remote_failure_labels_none [OF failing_world_fields(1) _ _ _ failing_world_fields(2),
      where input_file = "''in.xlsx''" and output_file = "''out.xlsx''" and env_path = "''.env''"
      and ts = "[Str ''Teacher never circulated during group work'', Str [], Str ''Great job, no concerns'']"
      and j = 0 and s = "''Teacher never circulated during group work''" and ?c0.0 = "[]"]
  by (simp add: failing_world_fields sample_frame_def wf_dataframe_def column_def
      raises_outside_try_def needs_call_def numeral_2_eq_2 numeral_3_eq_3)

text \<open>
  Claim C5 asks that every written frame holds all columns of the input with their cells,
  and exactly one more column. The header of the script promises the same (other columns
  will be preserved; a new column is added). On a workbook that already has a column
  \<^verbatim>\<open>area_for_improvement\<close> the run writes a frame with the three columns of the input and
  no further one, and the cells \<^verbatim>\<open>old\<close> of that column are replaced by the labels.
\<close>

theorem C5_existing_column_is_lost:
  "process_excel_file coded_world ''in.xlsx'' ''out.xlsx'' ''.env'' =
     (Written ''out.xlsx''
        \<lparr>nrows = 2,
         cols = [(''area_for_improvement'', [Str ''Classroom Management'', Str ''none'']),
                 (''text'', [Str ''Plan the lesson'', Str ''Speak up'']),
                 (''id'', [Num 1, Num 2])]\<rparr>,
      [completion_request sample_analyzer ''Plan the lesson'',
       completion_request sample_analyzer ''Speak up'']) \<and>
   read_excel coded_world ''in.xlsx'' =
     Inr \<lparr>nrows = 2,
          cols = [(''area_for_improvement'', [Str ''old'', Str ''old'']),
                  (''text'', [Str ''Plan the lesson'', Str ''Speak up'']),
                  (''id'', [Num 1, Num 2])]\<rparr> \<and>
   \<not> adds_one_column coded_frame ''area_for_improvement''
     \<lparr>nrows = 2,
      cols = [(''area_for_improvement'', [Str ''Classroom Management'', Str ''none'']),
              (''text'', [Str ''Plan the lesson'', Str ''Speak up'']),
              (''id'', [Num 1, Num 2])]\<rparr>"
  by (simp add: coded_run coded_world_fields) (simp add: adds_one_column_def coded_frame_def)

text \<open>
  Claim C7. The comparison \<^verbatim>\<open>len(feedback_text.strip()) < 0\<close> is false for every string, so
  for a string the guard returns \<^verbatim>\<open>"none"\<close> without a request exactly when the string is
  empty; every other string, however short, is sent to the service.
\<close>

theorem C7_length_check_is_dead:
  "\<not> int (length (strip s)) < 0 \<and>
   (get_area_for_improvement a svc (Str s) calls = (Inr ''none'', calls) \<longleftrightarrow> s = []) \<and>
   snd (get_area_for_improvement a svc (Str s) calls) =
     (if s = [] then calls else calls @ [completion_request a s])"
  by (auto simp: split: prod.splits dest: try_completion_calls)

theorem C7_length_check_is_dead_witness:
  "get_area_for_improvement sample_analyzer sample_service (Str ''ok'') [] \<noteq> (Inr ''none'', []) \<and>
   snd (get_area_for_improvement sample_analyzer sample_service (Str ''ok'') []) =
     [completion_request sample_analyzer ''ok'']"
  using C7_length_check_is_dead [of "''ok''" sample_analyzer sample_service "[]"] by simp

text \<open>
  Claim C8. The prompt is a function of the feedback text and the list of skills only: two
  analyzers with the same skills build the same prompt for the same text, whatever their
  clients. The prompt is, line by line: the instruction to analyze the feedback, a line of
  eight spaces, the line \<^verbatim>\<open>Feedback text:\<close>, the feedback text as it is, an empty line, the
  line that lists the options (the skills joined by a comma and a space, then the three
  sentinel labels in double quotes), an empty line, the line \<^verbatim>\<open>Rules:\<close> and the four
  tie-break rules. Joining puts the separator between neighbours only.
\<close>

theorem C8_create_prompt_deterministic:
  "(teaching_skills a = teaching_skills b \<longrightarrow> create_prompt a t = create_prompt b t) \<and>
   create_prompt a t =
     ''Analyze this feedback given to a pre-service teacher and identify the main area that needs improvement.'' @ [CHR 0x0A] @
     ''        '' @ [CHR 0x0A] @
     ''Feedback text:'' @ [CHR 0x0A] @
     t @ [CHR 0x0A] @
     [CHR 0x0A] @
     ''Respond with ONLY ONE of these options: '' @ join '', '' (teaching_skills a) @
       '', '' @ [CHR 0x22] @ ''other'' @ [CHR 0x22] @ '', '' @ [CHR 0x22] @ ''none'' @ [CHR 0x22] @
       '', or '' @ [CHR 0x22] @ ''multiple'' @ [CHR 0x22] @ ''.'' @ [CHR 0x0A] @
     [CHR 0x0A] @
     ''Rules:'' @ [CHR 0x0A] @
     ''- Choose '' @ [CHR 0x22] @ ''multiple'' @ [CHR 0x22] @
       '' if there are several equally emphasized areas for improvement'' @ [CHR 0x0A] @
     ''- Choose '' @ [CHR 0x22] @ ''none'' @ [CHR 0x22] @
       '' if no specific area for improvement is mentioned'' @ [CHR 0x0A] @
     ''- Choose '' @ [CHR 0x22] @ ''other'' @ [CHR 0x22] @
       '' if the area for improvement doesn'' @ [CHR 0x27] @ ''t match any of the listed skills'' @ [CHR 0x0A] @
     ''- Otherwise, choose the most prominent teaching skill that needs improvement'' \<and>
   join '', '' (teaching_skills a) =
     (if teaching_skills a = [] then []
      else hd (teaching_skills a) @ concat (map (\<lambda>skill. '', '' @ skill) (tl (teaching_skills a)))) \<and>
   sublist t (create_prompt a t) \<and>
   sublist (join '', '' (teaching_skills a)) (create_prompt a t)"
proof -
  let ?p = "create_prompt a t"
  let ?j = "join '', '' (teaching_skills a)"
  have shape: "?p = prompt_head @ t @ prompt_options @ ?j @ prompt_sentinels @ prompt_rules"
    by (simp add: create_prompt_def)
  have det: "teaching_skills a = teaching_skills b \<longrightarrow> ?p = create_prompt b t"
    by (simp add: create_prompt_def)
  have lit: "?p =
     ''Analyze this feedback given to a pre-service teacher and identify the main area that needs improvement.'' @ [CHR 0x0A] @
     ''        '' @ [CHR 0x0A] @
     ''Feedback text:'' @ [CHR 0x0A] @
     t @ [CHR 0x0A] @
     [CHR 0x0A] @
     ''Respond with ONLY ONE of these options: '' @ ?j @
       '', '' @ [CHR 0x22] @ ''other'' @ [CHR 0x22] @ '', '' @ [CHR 0x22] @ ''none'' @ [CHR 0x22] @
       '', or '' @ [CHR 0x22] @ ''multiple'' @ [CHR 0x22] @ ''.'' @ [CHR 0x0A] @
     [CHR 0x0A] @
     ''Rules:'' @ [CHR 0x0A] @
     ''- Choose '' @ [CHR 0x22] @ ''multiple'' @ [CHR 0x22] @
       '' if there are several equally emphasized areas for improvement'' @ [CHR 0x0A] @
     ''- Choose '' @ [CHR 0x22] @ ''none'' @ [CHR 0x22] @
       '' if no specific area for improvement is mentioned'' @ [CHR 0x0A] @
     ''- Choose '' @ [CHR 0x22] @ ''other'' @ [CHR 0x22] @
       '' if the area for improvement doesn'' @ [CHR 0x27] @ ''t match any of the listed skills'' @ [CHR 0x0A] @
     ''- Otherwise, choose the most prominent teaching skill that needs improvement''"
    by (simp add: shape prompt_head_def prompt_options_def prompt_sentinels_def prompt_rules_def
        rule_multiple_def rule_none_def rule_other_def rule_otherwise_def)
  have t: "sublist t ?p"
    unfolding shape by (rule sublist_appendI)
  have "?p = (prompt_head @ t @ prompt_options) @ ?j @ (prompt_sentinels @ prompt_rules)"
    by (simp add: shape)
  then have j: "sublist ?j ?p"
    by (metis sublist_appendI)
  from det lit join_closed_form [of "'', ''" "teaching_skills a"] t j show ?thesis
    by blast
qed

theorem C8_create_prompt_deterministic_witness:
  "create_prompt sample_analyzer ''Be on time'' =
     create_prompt (sample_analyzer\<lparr>client := \<lparr>api_key = None\<rparr>\<rparr>) ''Be on time'' \<and>
   create_prompt sample_analyzer ''Be on time'' =
     ''Analyze this feedback given to a pre-service teacher and identify the main area that needs improvement.'' @ [CHR 0x0A] @
     ''        '' @ [CHR 0x0A] @
     ''Feedback text:'' @ [CHR 0x0A] @
     ''Be on time'' @ [CHR 0x0A] @
     [CHR 0x0A] @
     ''Respond with ONLY ONE of these options: Classroom Management, Lesson Planning, Differentiation, Assessment and Feedback, Student Engagement, Student Comprehension, Communication, '' @
       [CHR 0x22] @ ''other'' @ [CHR 0x22] @ '', '' @ [CHR 0x22] @ ''none'' @ [CHR 0x22] @
       '', or '' @ [CHR 0x22] @ ''multiple'' @ [CHR 0x22] @ ''.'' @ [CHR 0x0A] @
     [CHR 0x0A] @
     ''Rules:'' @ [CHR 0x0A] @
     ''- Choose '' @ [CHR 0x22] @ ''multiple'' @ [CHR 0x22] @
       '' if there are several equally emphasized areas for improvement'' @ [CHR 0x0A] @
     ''- Choose '' @ [CHR 0x22] @ ''none'' @ [CHR 0x22] @
       '' if no specific area for improvement is mentioned'' @ [CHR 0x0A] @
     ''- Choose '' @ [CHR 0x22] @ ''other'' @ [CHR 0x22] @
       '' if the area for improvement doesn'' @ [CHR 0x27] @ ''t match any of the listed skills'' @ [CHR 0x0A] @
     ''- Otherwise, choose the most prominent teaching skill that needs improvement''"
proof -
  let ?b = "sample_analyzer\<lparr>client := \<lparr>api_key = None\<rparr>\<rparr>"
  note c = C8_create_prompt_deterministic [of sample_analyzer ?b "''Be on time''"]
  have same: "teaching_skills sample_analyzer = teaching_skills ?b"
    by simp
  have j: "join '', '' (teaching_skills sample_analyzer) =
      ''Classroom Management, Lesson Planning, Differentiation, Assessment and Feedback, Student Engagement, Student Comprehension, Communication''"
    by (simp add: sample_analyzer_fields default_skills_def)
  from c same have "create_prompt sample_analyzer ''Be on time'' = create_prompt ?b ''Be on time''"
    by blast
  moreover from c have "create_prompt sample_analyzer ''Be on time'' =
     ''Analyze this feedback given to a pre-service teacher and identify the main area that needs improvement.'' @ [CHR 0x0A] @
     ''        '' @ [CHR 0x0A] @
     ''Feedback text:'' @ [CHR 0x0A] @
     ''Be on time'' @ [CHR 0x0A] @
     [CHR 0x0A] @
     ''Respond with ONLY ONE of these options: '' @ join '', '' (teaching_skills sample_analyzer) @
       '', '' @ [CHR 0x22] @ ''other'' @ [CHR 0x22] @ '', '' @ [CHR 0x22] @ ''none'' @ [CHR 0x22] @
       '', or '' @ [CHR 0x22] @ ''multiple'' @ [CHR 0x22] @ ''.'' @ [CHR 0x0A] @
     [CHR 0x0A] @
     ''Rules:'' @ [CHR 0x0A] @
     ''- Choose '' @ [CHR 0x22] @ ''multiple'' @ [CHR 0x22] @
       '' if there are several equally emphasized areas for improvement'' @ [CHR 0x0A] @
     ''- Choose '' @ [CHR 0x22] @ ''none'' @ [CHR 0x22] @
       '' if no specific area for improvement is mentioned'' @ [CHR 0x0A] @
     ''- Choose '' @ [CHR 0x22] @ ''other'' @ [CHR 0x22] @
       '' if the area for improvement doesn'' @ [CHR 0x27] @ ''t match any of the listed skills'' @ [CHR 0x0A] @
     ''- Otherwise, choose the most prominent teaching skill that needs improvement''"
    by blast
  ultimately show ?thesis
    by (simp add: j)
qed

text \<open>
  Claim C9. On a text cell that is truthy and no string (a non-zero number, \<^verbatim>\<open>True\<close>, NaN)
  \<^verbatim>\<open>get_area_for_improvement\<close> raises AttributeError before its \<^verbatim>\<open>try\<close>, and makes no
  request. If the frame that was read has such a cell in row \<open>j\<close> of its \<^verbatim>\<open>text\<close> column,
  the run ends aborted, with nothing written: with that AttributeError, unless the analyzer
  could not be built in the first place. No request is made for row \<open>j\<close> or any later row:
  the log holds at most one request per non-empty string among the first \<open>j\<close> rows.
\<close>

theorem C9_non_string_text_aborts_run:
  assumes "read_excel w input_file = Inr df" and "wf_dataframe df"
    and "column df ''text'' = Some ts" and "j < length ts" and "raises_outside_try (ts ! j)"
  shows "get_area_for_improvement a svc (ts ! j) c = (Inl AttributeError, c) \<and>
         (\<exists>e calls. process_excel_file w input_file output_file env_path = (Aborted e, calls) \<and>
            (e = AttributeError \<or> SimpleFeedbackAnalyzer w env_path = Inl e) \<and>
            length calls \<le> length (filter needs_call (take j ts)))"
proof
  show "get_area_for_improvement a svc (ts ! j) c = (Inl AttributeError, c)"
    using assms(5) by (simp add: get_area_cases)
next
  let ?df1 = "set_column df ''area_for_improvement'' (Str ''none'')"
  show "\<exists>e calls. process_excel_file w input_file output_file env_path = (Aborted e, calls) \<and>
            (e = AttributeError \<or> SimpleFeedbackAnalyzer w env_path = Inl e) \<and>
            length calls \<le> length (filter needs_call (take j ts))"
  proof (cases "SimpleFeedbackAnalyzer w env_path")
    case (Inl e)
    with assms(1) show ?thesis
      by (simp add: process_excel_file_def)
  next
    case (Inr an)
    have rows: "iterrows ?df1 = map (\<lambda>i. (i, row_at ?df1 i)) [0..<length ts]"
      and texts: "\<forall>i\<in>set [0..<length ts]. row_at ?df1 i ''text'' = Some (ts ! i)"
      using iterrows_text [OF assms(2,3)] by blast+
    have upt: "[0..<length ts] = [0..<j] @ j # [Suc j..<length ts]"
      using assms(4) upt_add_eq_append [of 0 j "length ts - j"] upt_conv_Cons [of j "length ts"]
      by simp
    have t1: "\<forall>i\<in>set [0..<j]. row_at ?df1 i ''text'' = Some (ts ! i)"
      using texts assms(4) by simp
    have tj: "row_at ?df1 j ''text'' = Some (ts ! j)"
      using texts assms(4) by simp
    from for_rows_abort [where r = "row_at ?df1" and t = "\<lambda>i. ts ! i" and a = an
        and svc = "completions_create w" and ?is2.0 = "[Suc j..<length ts]" and df = ?df1
        and calls = "[]", OF t1 tj assms(5)]
    obtain d calls where
      run: "for_rows an (completions_create w) (iterrows ?df1) ?df1 [] = (Some AttributeError, d, calls)"
      and len: "length calls \<le> length (filter (\<lambda>i. needs_call (ts ! i)) [0..<j])"
      unfolding rows upt by auto
    have "length calls \<le> length (filter needs_call (take j ts))"
      using len count_upt_take [of j ts needs_call] assms(4) by simp
    moreover have "process_excel_file w input_file output_file env_path = (Aborted AttributeError, calls)"
      using assms(1) Inr run by (simp add: process_excel_file_def Let_def)
    ultimately show ?thesis by simp
  qed
qed

theorem C9_non_string_text_aborts_run_witness:
  "get_area_for_improvement sample_analyzer sample_service NaN [] = (Inl AttributeError, []) \<and>
   (\<exists>e calls. process_excel_file gap_world ''in.xlsx'' ''out.xlsx'' ''.env'' = (Aborted e, calls) \<and>
      (e = AttributeError \<or> SimpleFeedbackAnalyzer gap_world ''.env'' = Inl e) \<and>
      length calls \<le> 1)"
  using C9_non_string_text_aborts_run [OF gap_world_fields(1), where input_file = "''in.xlsx''"
      and ts = "[Str ''Plan the lesson'', NaN, Str ''Speak up'']" and j = 1 and a = sample_analyzer
      and svc = sample_service and c = "[]" and output_file = "''out.xlsx''"
      and env_path = "''.env''"]
  by (simp add: gap_frame_def wf_dataframe_def column_def raises_outside_try_def needs_call_def)

text \<open>
  Claim C10. If the input frame has a column \<^verbatim>\<open>area_for_improvement\<close> already, a written
  frame has the column names of the input, hence as many columns; the assignment before
  the loop sets every cell of that column to \<^verbatim>\<open>none\<close>; the written column holds one
  allowed label per row, and row by row it is what \<^verbatim>\<open>get_area_for_improvement\<close> returned
  for the text of that row; every other column is as it was read; and the run is the same
  as on the input whose column was replaced by \<^verbatim>\<open>none\<close> beforehand, so nothing of the
  old cells is kept.
\<close>

theorem C10_existing_column_overwritten:
  assumes "read_excel w input_file = Inr df"
    and "''area_for_improvement'' \<in> set (column_names df)"
    and "process_excel_file w input_file output_file env_path = (Written p df', calls)"
  shows "column_names df' = column_names df \<and> length (cols df') = length (cols df) \<and>
         column (set_column df ''area_for_improvement'' (Str ''none'')) ''area_for_improvement'' =
           Some (replicate (nrows df) (Str ''none'')) \<and>
         (\<exists>vs. column df' ''area_for_improvement'' = Some vs \<and> length vs = nrows df \<and>
               list_all (is_label (default_skills @ [''other'', ''none'', ''multiple''])) vs) \<and>
         (wf_dataframe df \<and> column df ''text'' = Some ts \<longrightarrow>
            (\<exists>a. SimpleFeedbackAnalyzer w env_path = Inr a \<and>
               column df' ''area_for_improvement'' =
                 Some (row_labels a (completions_create w) ts []))) \<and>
         (\<forall>k. k \<noteq> ''area_for_improvement'' \<longrightarrow> column df' k = column df k) \<and>
         process_excel_file
           (w\<lparr>read_excel := (read_excel w)(input_file := Inr (set_column df ''area_for_improvement'' (Str ''none'')))\<rparr>)
           input_file output_file env_path =
         process_excel_file w input_file output_file env_path"
proof -
  let ?c = "''area_for_improvement''"
  let ?df1 = "set_column df ?c (Str ''none'')"
  from process_written [OF assms(3)] assms(1) obtain a where
    init: "SimpleFeedbackAnalyzer w env_path = Inr a" and
    run: "for_rows a (completions_create w) (iterrows ?df1) ?df1 [] = (None, df', calls)"
    by auto
  have names: "column_names df' = column_names df"
    using for_rows_column_names [OF run] assms(2) by (simp add: column_names_set_column)
  then have "length (column_names df') = length (column_names df)"
    by simp
  then have len: "length (cols df') = length (cols df)"
    by (simp add: column_names_def)
  have c0: "column ?df1 ?c = Some (replicate (nrows df) (Str ''none''))"
    by (simp add: column_set_column)
  have al: "allowed_labels a = default_skills @ [''other'', ''none'', ''multiple'']"
    using init_skills [OF init] by (simp add: allowed_labels_def)
  have s0: "set (replicate (nrows df) (Str ''none'')) \<subseteq> Str ` set (allowed_labels a)"
    by (auto simp: allowed_labels_def)
  from for_rows_labels [OF run c0 s0] obtain vs where
    vs: "column df' ?c = Some vs" "length vs = nrows df" "set vs \<subseteq> Str ` set (allowed_labels a)"
    by auto
  have lab: "\<exists>vs. column df' ?c = Some vs \<and> length vs = nrows df \<and>
      list_all (is_label (default_skills @ [''other'', ''none'', ''multiple''])) vs"
    using vs is_label_all [of vs "allowed_labels a"] by (auto simp: al)
  have rows: "wf_dataframe df \<and> column df ''text'' = Some ts \<longrightarrow>
      (\<exists>a. SimpleFeedbackAnalyzer w env_path = Inr a \<and>
         column df' ?c = Some (row_labels a (completions_create w) ts []))"
    using written_column_is_row_labels [OF assms(1) _ _ assms(3)] by blast
  have others: "\<forall>k. k \<noteq> ?c \<longrightarrow> column df' k = column df k"
    using written_other_columns [OF assms(1,3)] by blast
  from names len c0 lab rows others process_after_set_column [OF assms(1)] show ?thesis
    by blast
qed

theorem C10_existing_column_overwritten_witness:
  "column coded_frame ''area_for_improvement'' = Some [Str ''old'', Str ''old''] \<and>
   column (set_column coded_frame ''area_for_improvement'' (Str ''none'')) ''area_for_improvement'' =
     Some [Str ''none'', Str ''none''] \<and>
   row_labels sample_analyzer sample_service [Str ''Plan the lesson'', Str ''Speak up''] [] =
     [Str ''Classroom Management'', Str ''none''] \<and>
   (\<exists>a. SimpleFeedbackAnalyzer coded_world ''.env'' = Inr a \<and>
      Some [Str ''Classroom Management'', Str ''none''] =
        Some (row_labels a (completions_create coded_world) [Str ''Plan the lesson'', Str ''Speak up''] [])) \<and>
   column_names
     \<lparr>nrows = 2,
      cols = [(''area_for_improvement'', [Str ''Classroom Management'', Str ''none'']),
              (''text'', [Str ''Plan the lesson'', Str ''Speak up'']),
              (''id'', [Num 1, Num 2])]\<rparr> = column_names coded_frame \<and>
   length (cols coded_frame) = 3"
proof -
  have old: "column coded_frame ''area_for_improvement'' = Some [Str ''old'', Str ''old'']"
    by (simp add: coded_frame_def column_def)
  have labels: "row_labels sample_analyzer sample_service [Str ''Plan the lesson'', Str ''Speak up''] [] =
      [Str ''Classroom Management'', Str ''none'']"
    by (simp add: try_completion_def sample_service_def strip_def isspace_def allowed_labels_def
        sample_analyzer_fields default_skills_def)
  have wf: "wf_dataframe coded_frame"
    and tcol: "column coded_frame ''text'' = Some [Str ''Plan the lesson'', Str ''Speak up'']"
    and hascol: "''area_for_improvement'' \<in> set (column_names coded_frame)"
    by (simp_all add: coded_frame_def wf_dataframe_def column_def column_names_def)
  from C10_existing_column_overwritten [OF coded_world_fields(1) hascol coded_run,
      where ts = "[Str ''Plan the lesson'', Str ''Speak up'']"] wf tcol old labels
  show ?thesis
    by (simp add: coded_frame_def column_def column_names_def eval_nat_numeral)
qed

end
